theory Spec2Isabelle
  imports Main "HOL-Library.Sublist"
begin

section \<open>Python values\<close>

text \<open>
  A Python \<open>str\<close> is a sequence of Unicode code points, modelled as a list of naturals;
  \<open>bytes\<close> are a list of 8-bit characters. \<open>str\<close> turns an ASCII literal into the
  code points of the Python literal with the same spelling.
\<close>

type_synonym pystr = "nat list"
type_synonym bytes = "char list"

definition str :: "string \<Rightarrow> pystr" where
  "str s = map of_char s"

text \<open>\<open>c.isspace()\<close> of CPython, the characters \<open>str.strip()\<close> removes.\<close>

definition isspace :: "nat \<Rightarrow> bool" where
  "isspace c \<longleftrightarrow>
     (9 \<le> c \<and> c \<le> 13) \<or> (28 \<le> c \<and> c \<le> 32) \<or> c = 133 \<or> c = 160 \<or> c = 5760 \<or>
     (8192 \<le> c \<and> c \<le> 8202) \<or> c = 8232 \<or> c = 8233 \<or> c = 8239 \<or> c = 8287 \<or> c = 12288"

definition strip :: "pystr \<Rightarrow> pystr" where
  "strip s = rev (dropWhile isspace (rev (dropWhile isspace s)))"

text \<open>\<open>s.replace(old, new)\<close> for a non-empty \<open>old\<close>: non-overlapping occurrences, left to right.\<close>

fun replace :: "pystr \<Rightarrow> pystr \<Rightarrow> pystr \<Rightarrow> pystr" where
  "replace old new [] = []"
| "replace old new (c # cs) =
     (if prefix old (c # cs) \<and> old \<noteq> []
      then new @ replace old new (drop (length old) (c # cs))
      else c # replace old new cs)"

section \<open>Regular expressions\<close>

text \<open>
  \<open>re.search(p, s)\<close> tries the pattern at every start position from the left, the end of
  the string included, and returns the first match. The pattern is given by its anchored
  matcher, which returns group 1 of the match at the start of its argument.
\<close>

fun re_search :: "(pystr \<Rightarrow> pystr option) \<Rightarrow> pystr \<Rightarrow> pystr option" where
  "re_search m [] = m []"
| "re_search m (c # cs) = (case m (c # cs) of Some g \<Rightarrow> Some g | None \<Rightarrow> re_search m cs)"

text \<open>A literal piece of a pattern: the rest of the subject after it, if it is there.\<close>

definition lit :: "pystr \<Rightarrow> pystr \<Rightarrow> pystr option" where
  "lit l s = (if prefix l s then Some (drop (length l) s) else None)"

text \<open>Backtracking: the first alternative that leads to a match wins.\<close>

definition orelse :: "'a option \<Rightarrow> 'a option \<Rightarrow> 'a option" where
  "orelse a b = (case a of Some x \<Rightarrow> Some x | None \<Rightarrow> b)"

subsection \<open>\<open>TERABOX_URL_REGEX = r"(https?://(?:www\.)?terabox\.com/s/[a-zA-Z0-9_-]+)"\<close>\<close>

text \<open>The class \<open>[a-zA-Z0-9_-]\<close>.\<close>

definition token_char :: "nat \<Rightarrow> bool" where
  "token_char c \<longleftrightarrow>
     (97 \<le> c \<and> c \<le> 122) \<or> (65 \<le> c \<and> c \<le> 90) \<or> (48 \<le> c \<and> c \<le> 57) \<or> c = 95 \<or> c = 45"

text \<open>
  \<open>terabox\.com/s/[a-zA-Z0-9_-]+\<close>, with \<open>acc\<close> the text matched so far. The greedy
  \<open>+\<close> takes the longest run of class characters; nothing follows it in the pattern, so
  it never gives any back.
\<close>

definition match_host :: "pystr \<Rightarrow> pystr \<Rightarrow> pystr option" where
  "match_host acc s =
     (case lit (str ''terabox.com/s/'') s of
        None \<Rightarrow> None
      | Some r \<Rightarrow>
          (let tok = takeWhile token_char r
           in if tok = [] then None else Some (acc @ str ''terabox.com/s/'' @ tok)))"

text \<open>\<open>://(?:www\.)?\<close> and the rest: the optional group is tried first, then skipped.\<close>

definition match_scheme_end :: "pystr \<Rightarrow> pystr \<Rightarrow> pystr option" where
  "match_scheme_end acc s =
     (case lit (str ''://'') s of
        None \<Rightarrow> None
      | Some r \<Rightarrow>
          orelse
            (case lit (str ''www.'') r of
               None \<Rightarrow> None
             | Some r' \<Rightarrow> match_host (acc @ str ''://www.'') r')
            (match_host (acc @ str ''://'') r))"

text \<open>The whole pattern anchored at the start of \<open>s\<close>; group 1 is the whole match.\<close>

definition TERABOX_URL_REGEX :: "pystr \<Rightarrow> pystr option" where
  "TERABOX_URL_REGEX s =
     (case lit (str ''http'') s of
        None \<Rightarrow> None
      | Some r \<Rightarrow>
          orelse
            (case lit (str ''s'') r of
               None \<Rightarrow> None
             | Some r' \<Rightarrow> match_scheme_end (str ''https'') r')
            (match_scheme_end (str ''http'') r))"

text \<open>
  Lines 85, 92 and 97 of \<open>handle_message\<close>: the link the handler works on, from the
  text of the message.
\<close>

definition terabox_link_of :: "pystr \<Rightarrow> pystr option" where
  "terabox_link_of message_text = re_search TERABOX_URL_REGEX (strip message_text)"

subsection \<open>The share-link pattern in words\<close>

text \<open>
  What the pattern is said to match: a scheme \<open>http\<close> or \<open>https\<close>, \<open>://\<close>, an optional
  \<open>www.\<close>, the host \<open>terabox.com\<close>, \<open>/s/\<close> and a non-empty token of class characters.
\<close>

definition link_heads :: "pystr list" where
  "link_heads =
     [scheme @ str ''://'' @ www @ str ''terabox.com/s/''.
        scheme \<leftarrow> [str ''http'', str ''https''], www \<leftarrow> [[], str ''www.'']]"

definition share_link :: "pystr \<Rightarrow> bool" where
  "share_link m \<longleftrightarrow>
     (\<exists>h \<in> set link_heads. prefix h m \<and> drop (length h) m \<noteq> [] \<and>
        list_all token_char (drop (length h) m))"

text \<open>\<open>m\<close> is the substring of \<open>s\<close> that starts at index \<open>k\<close>.\<close>

definition occurs_at :: "pystr \<Rightarrow> nat \<Rightarrow> pystr \<Rightarrow> bool" where
  "occurs_at s k m \<longleftrightarrow> k \<le> length s \<and> prefix m (drop k s)"

text \<open>
  The first matching substring: no share link starts further left, and no share link
  with the same start is longer.
\<close>

definition first_share_link :: "pystr \<Rightarrow> pystr \<Rightarrow> bool" where
  "first_share_link s m \<longleftrightarrow>
     (\<exists>k. occurs_at s k m \<and> share_link m \<and>
        (\<forall>k' m'. occurs_at s k' m' \<and> share_link m' \<longrightarrow>
           k < k' \<or> (k = k' \<and> length m' \<le> length m)))"

subsection \<open>The patterns of the fetch routine\<close>

definition dquote :: nat where
  "dquote = 34"

definition backslash :: nat where
  "backslash = 92"

definition newline :: nat where
  "newline = 10"

text \<open>
  \<open>(.*?)\<close> followed by the literal \<open>l\<close>: the shortest run of characters other than a
  newline after which \<open>l\<close> stands.
\<close>

fun lazy_until :: "pystr \<Rightarrow> pystr \<Rightarrow> pystr option" where
  "lazy_until l [] = (if l = [] then Some [] else None)"
| "lazy_until l (c # cs) =
     (if prefix l (c # cs) then Some []
      else if c = newline then None
      else map_option (Cons c) (lazy_until l cs))"

text \<open>\<open>r'<title>(.*?) - Terabox'\<close>, anchored.\<close>

definition title_regex :: "pystr \<Rightarrow> pystr option" where
  "title_regex s =
     (case lit (str ''<title>'') s of
        None \<Rightarrow> None
      | Some r \<Rightarrow> lazy_until (str '' - Terabox'') r)"

text \<open>The key of the embedded token, \<open>"download_url":"\<close>, and the start of its value, \<open>https:\/\/\<close>.\<close>

definition download_url_key :: pystr where
  "download_url_key = [dquote] @ str ''download_url'' @ [dquote] @ str '':'' @ [dquote]"

definition escaped_https :: pystr where
  "escaped_https = str ''https:'' @ [backslash] @ str ''/'' @ [backslash] @ str ''/''"

text \<open>
  \<open>r'"download_url":"(https:\\/\\/[^"]+)"'\<close>, anchored. The greedy \<open>[^"]+\<close> takes every
  character up to the next double quote or the end of the text; a shorter run would be
  followed by a character of the run, never by the closing quote, so giving back does
  not help.
\<close>

definition download_url_regex :: "pystr \<Rightarrow> pystr option" where
  "download_url_regex s =
     (case lit download_url_key s of
        None \<Rightarrow> None
      | Some r \<Rightarrow>
          (case lit escaped_https r of
             None \<Rightarrow> None
           | Some r' \<Rightarrow>
               (let run = takeWhile (\<lambda>c. c \<noteq> dquote) r'
                in if run = [] then None
                   else (case lit [dquote] (drop (length run) r') of
                           None \<Rightarrow> None
                         | Some _ \<Rightarrow> Some (escaped_https @ run)))))"

text \<open>Lines 148 and 149: the display name.\<close>

definition file_name_of :: "pystr \<Rightarrow> pystr" where
  "file_name_of html =
     (case re_search title_regex html of
        Some g \<Rightarrow> strip g
      | None \<Rightarrow> str ''terabox_file'')"

text \<open>Lines 154 to 159: the direct-download URL, if the page has the token.\<close>

definition download_url_of :: "pystr \<Rightarrow> pystr option" where
  "download_url_of html =
     (case re_search download_url_regex html of
        Some g \<Rightarrow> Some (replace (backslash # str ''/'') (str ''/'') g)
      | None \<Rightarrow> None)"

subsection \<open>The embedded token in words\<close>

text \<open>
  A well-formed token is the key \<open>"download_url"\<close>, a colon, and a quoted value; the value
  is an https URL with escaped separators: it starts with \<open>https:\/\/\<close>, goes on with at
  least one more character, and has no double quote in it.
\<close>

definition download_url_token :: "pystr \<Rightarrow> pystr" where
  "download_url_token v = download_url_key @ v @ [dquote]"

definition well_formed_value :: "pystr \<Rightarrow> bool" where
  "well_formed_value v \<longleftrightarrow>
     prefix escaped_https v \<and> drop (length escaped_https) v \<noteq> [] \<and>
     dquote \<notin> set (drop (length escaped_https) v)"

definition token_at :: "pystr \<Rightarrow> nat \<Rightarrow> pystr \<Rightarrow> bool" where
  "token_at html k v \<longleftrightarrow> well_formed_value v \<and> occurs_at html k (download_url_token v)"

definition contains_token :: "pystr \<Rightarrow> bool" where
  "contains_token html \<longleftrightarrow> (\<exists>k v. token_at html k v)"

text \<open>Escaping the separators of a URL, as the page does: every \<open>/\<close> becomes \<open>\/\<close>.\<close>

fun escape_separators :: "pystr \<Rightarrow> pystr" where
  "escape_separators [] = []"
| "escape_separators (c # cs) =
     (if c = 47 then backslash # 47 # escape_separators cs else c # escape_separators cs)"

section \<open>The world of one handler invocation\<close>

text \<open>
  A call either returns a value or raises an exception (a subclass of \<open>Exception\<close>),
  of which the model keeps the text, \<open>str(e)\<close>.
\<close>

datatype 'a outcome = Raises pystr | Returns 'a

fun returned :: "'a outcome \<Rightarrow> bool" where
  "returned (Returns _) = True"
| "returned (Raises _) = False"

text \<open>\<open>InlineKeyboardButton(text=..., url=...)\<close>; a keyboard is a list of rows of buttons.\<close>

record button =
  button_text :: pystr
  button_url :: pystr

type_synonym keyboard = "button list list"

text \<open>The answer of \<open>session.get\<close>: the status, the body as text, and the body as a stream
  of chunks that may break off with an exception after the chunks it delivered.\<close>

record response =
  status_code :: nat
  resp_text :: pystr
  chunks :: "bytes list"
  stream_error :: "pystr option"

text \<open>An inbound update: the sender and the text of the message.\<close>

record update =
  effective_user_id :: nat
  message_text :: pystr

text \<open>
  What the handler does not decide: the configured channel, and how the chat platform,
  the web and the temporary directory answer each call.
\<close>

record env =
  CHANNEL_USERNAME :: "pystr option"
  chat_member_status :: "pystr \<Rightarrow> nat \<Rightarrow> pystr outcome"
  reply_text_result :: "pystr \<Rightarrow> keyboard option \<Rightarrow> unit outcome"
  reply_document_result :: "bytes \<Rightarrow> pystr \<Rightarrow> unit outcome"
  http_response :: "pystr \<Rightarrow> bool \<Rightarrow> response outcome"
  temp_name :: "pystr outcome"

text \<open>
  What an invocation does to the outside, in order. A reply carries a flag: the call
  returned, that is, the reply was sent.
\<close>

datatype event =
    GetChatMember pystr nat
  | ReplyText pystr "keyboard option" bool
  | ReplyDocument bytes pystr bool
  | SessionGet pystr bool
  | FileCreated pystr
  | FileRemoved pystr

record world =
  files :: "pystr \<rightharpoonup> bytes"
  trace :: "event list"

type_synonym 'a io = "world \<Rightarrow> 'a outcome \<times> world"

definition returns :: "'a \<Rightarrow> 'a io" where
  "returns x w = (Returns x, w)"

definition bind :: "'a io \<Rightarrow> ('a \<Rightarrow> 'b io) \<Rightarrow> 'b io" where
  "bind m f w =
     (case m w of
        (Raises e, w') \<Rightarrow> (Raises e, w')
      | (Returns x, w') \<Rightarrow> f x w')"

text \<open>\<open>try: m except Exception as e: h\<close>\<close>

definition try_except :: "'a io \<Rightarrow> (pystr \<Rightarrow> 'a io) \<Rightarrow> 'a io" where
  "try_except m h w =
     (case m w of
        (Raises e, w') \<Rightarrow> h e w'
      | (Returns x, w') \<Rightarrow> (Returns x, w'))"

definition log :: "event \<Rightarrow> world \<Rightarrow> world" where
  "log e w = w\<lparr>trace := trace w @ [e]\<rparr>"

subsection \<open>The calls to the outside\<close>

definition get_chat_member :: "env \<Rightarrow> pystr \<Rightarrow> nat \<Rightarrow> pystr io" where
  "get_chat_member env chat_id uid w =
     (chat_member_status env chat_id uid, log (GetChatMember chat_id uid) w)"

definition reply_text :: "env \<Rightarrow> pystr \<Rightarrow> keyboard option \<Rightarrow> unit io" where
  "reply_text env t k w =
     (reply_text_result env t k, log (ReplyText t k (returned (reply_text_result env t k))) w)"

definition reply_document :: "env \<Rightarrow> bytes \<Rightarrow> pystr \<Rightarrow> unit io" where
  "reply_document env document filename w =
     (reply_document_result env document filename,
      log (ReplyDocument document filename (returned (reply_document_result env document filename))) w)"

definition session_get :: "env \<Rightarrow> pystr \<Rightarrow> bool \<Rightarrow> response io" where
  "session_get env url stream w = (http_response env url stream, log (SessionGet url stream) w)"

subsection \<open>The local files\<close>

definition quoted :: "pystr \<Rightarrow> pystr" where
  "quoted p = [39] @ p @ [39]"

definition FileNotFoundError :: "pystr \<Rightarrow> pystr" where
  "FileNotFoundError p = str ''[Errno 2] No such file or directory: '' @ quoted p"

definition FileExistsError :: "pystr \<Rightarrow> pystr" where
  "FileExistsError p = str ''[Errno 17] File exists: '' @ quoted p"

text \<open>
  \<open>tempfile.NamedTemporaryFile(delete=False)\<close> creates an empty file under a name that
  is not in use and returns it open; the file stays when it is closed.
\<close>

definition NamedTemporaryFile :: "env \<Rightarrow> pystr io" where
  "NamedTemporaryFile env w =
     (case temp_name env of
        Raises e \<Rightarrow> (Raises e, w)
      | Returns p \<Rightarrow>
          (if files w p \<noteq> None then (Raises (FileExistsError p), w)
           else (Returns p, log (FileCreated p) (w\<lparr>files := (files w)(p \<mapsto> [])\<rparr>))))"

text \<open>\<open>temp_file.write(chunk)\<close> appends to the file.\<close>

definition file_write :: "pystr \<Rightarrow> bytes \<Rightarrow> world \<Rightarrow> world" where
  "file_write p chunk w =
     w\<lparr>files := (files w)(p \<mapsto> (case files w p of None \<Rightarrow> chunk | Some b \<Rightarrow> b @ chunk))\<rparr>"

text \<open>\<open>os.remove\<close> and \<open>os.unlink\<close>, the same function.\<close>

definition os_remove :: "pystr \<Rightarrow> unit io" where
  "os_remove p w =
     (if files w p = None then (Raises (FileNotFoundError p), w)
      else (Returns (), log (FileRemoved p) (w\<lparr>files := (files w)(p := None)\<rparr>)))"

definition os_path_getsize :: "pystr \<Rightarrow> nat io" where
  "os_path_getsize p w =
     (case files w p of
        None \<Rightarrow> (Raises (FileNotFoundError p), w)
      | Some b \<Rightarrow> (Returns (length b), w))"

text \<open>\<open>open(p, "rb")\<close>, as the bytes that the reader of the file gets.\<close>

definition open_rb :: "pystr \<Rightarrow> bytes io" where
  "open_rb p w =
     (case files w p of
        None \<Rightarrow> (Raises (FileNotFoundError p), w)
      | Some b \<Rightarrow> (Returns b, w))"

section \<open>The fetch routine\<close>

text \<open>Lines 169 to 171: the chunks that arrive are written, the empty ones skipped.\<close>

fun write_chunks :: "pystr \<Rightarrow> bytes list \<Rightarrow> world \<Rightarrow> world" where
  "write_chunks p [] w = w"
| "write_chunks p (chunk # rest) w =
     write_chunks p rest (if chunk \<noteq> [] then file_write p chunk w else w)"

definition iter_content_loop :: "pystr \<Rightarrow> response \<Rightarrow> unit io" where
  "iter_content_loop p download_response w =
     (case stream_error download_response of
        None \<Rightarrow> (Returns (), write_chunks p (chunks download_response) w)
      | Some e \<Rightarrow> (Raises e, write_chunks p (chunks download_response) w))"

text \<open>
  The body of the \<open>try\<close> of \<open>download_terabox_file\<close>, lines 134 to 174. The result
  \<open>None\<close> is the pair \<open>(None, None)\<close>, \<open>Some (file_path, file_name)\<close> an artifact.
\<close>

definition download_body :: "env \<Rightarrow> pystr \<Rightarrow> (pystr \<times> pystr) option io" where
  "download_body env terabox_link =
     bind (session_get env terabox_link False) (\<lambda>resp.
       if status_code resp \<noteq> 200 then returns None
       else
         (let html = resp_text resp; file_name = file_name_of html
          in case download_url_of html of
               None \<Rightarrow> returns None
             | Some download_url \<Rightarrow>
                 bind (NamedTemporaryFile env) (\<lambda>temp_file.
                 bind (session_get env download_url True) (\<lambda>download_response.
                   if status_code download_response \<noteq> 200
                   then bind (os_remove temp_file) (\<lambda>_. returns None)
                   else bind (iter_content_loop temp_file download_response) (\<lambda>_.
                          returns (Some (temp_file, file_name)))))))"

definition download_terabox_file :: "env \<Rightarrow> pystr \<Rightarrow> (pystr \<times> pystr) option io" where
  "download_terabox_file env terabox_link =
     try_except (download_body env terabox_link) (\<lambda>e. returns None)"

section \<open>The membership gate\<close>

definition warning_sign :: pystr where
  "warning_sign = [9888, 65039]"

definition cross_mark :: pystr where
  "cross_mark = [10060]"

definition magnifier :: pystr where
  "magnifier = [128269]"

definition join_button :: "pystr \<Rightarrow> button" where
  "join_button ch = \<lparr>button_text = str ''Join Now'', button_url = str ''https://t.me/'' @ ch\<rparr>"

definition must_join :: "pystr \<Rightarrow> pystr" where
  "must_join ch =
     warning_sign @ str '' You must join our channel @'' @ ch @ str '' to use this bot.''"

definition please_join :: "pystr \<Rightarrow> pystr" where
  "please_join ch =
     warning_sign @ str '' Please join our channel @'' @ ch @ str '' to use this bot.''"

definition member_statuses :: "pystr list" where
  "member_statuses = [str ''member'', str ''administrator'', str ''creator'']"

definition force_subscribe :: "env \<Rightarrow> update \<Rightarrow> bool io" where
  "force_subscribe env upd =
     (case CHANNEL_USERNAME env of
        None \<Rightarrow> returns True
      | Some ch \<Rightarrow>
          if ch = [] then returns True
          else
            try_except
              (bind (get_chat_member env (str ''@'' @ ch) (effective_user_id upd)) (\<lambda>status.
                 if status \<in> set member_statuses then returns True
                 else bind (reply_text env (must_join ch) (Some [[join_button ch]])) (\<lambda>_.
                        returns False)))
              (\<lambda>e. bind (reply_text env (please_join ch) (Some [[join_button ch]])) (\<lambda>_.
                      returns False)))"

subsection \<open>The gate in words\<close>

text \<open>
  A group is configured when \<open>CHANNEL_USERNAME\<close> is a non-empty string. The sender is a
  member when the query of the membership status returns one of \<open>member\<close>,
  \<open>administrator\<close> and \<open>creator\<close>; a query that fails makes no member.
\<close>

definition group_configured :: "env \<Rightarrow> bool" where
  "group_configured env = (case CHANNEL_USERNAME env of None \<Rightarrow> False | Some ch \<Rightarrow> ch \<noteq> [])"

definition is_member :: "env \<Rightarrow> update \<Rightarrow> bool" where
  "is_member env upd =
     (case CHANNEL_USERNAME env of
        None \<Rightarrow> False
      | Some ch \<Rightarrow>
          (case chat_member_status env (str ''@'' @ ch) (effective_user_id upd) of
             Raises e \<Rightarrow> False
           | Returns status \<Rightarrow> status \<in> set member_statuses))"



section \<open>The message handler\<close>

definition MAX_TELEGRAM_FILE_SIZE :: nat where
  "MAX_TELEGRAM_FILE_SIZE = 2 * 1024 * 1024 * 1024"

definition format_hint :: pystr where
  "format_hint =
     cross_mark @ str '' Please send a valid Terabox link (e.g. https://terabox.com/s/xyz).''"

definition downloading :: "pystr \<Rightarrow> pystr" where
  "downloading terabox_link =
     magnifier @ str '' Downloading file from: '' @ terabox_link @ [newline] @
     str ''Please wait...''"

definition download_failed :: pystr where
  "download_failed =
     cross_mark @ str '' Failed to download the file. The link might be invalid or protected.''"

definition too_large :: pystr where
  "too_large =
     cross_mark @ str '' Sorry, the file is too large to send via Telegram (max 2GB).''"

definition error_during :: "pystr \<Rightarrow> pystr" where
  "error_during e = cross_mark @ str '' Error during download or upload: '' @ e"

text \<open>Lines 101 to 116, the body of the handler's \<open>try\<close>.\<close>

definition transfer :: "env \<Rightarrow> pystr \<Rightarrow> unit io" where
  "transfer env terabox_link =
     bind (download_terabox_file env terabox_link) (\<lambda>r.
       case r of
         None \<Rightarrow> reply_text env download_failed None
       | Some (file_path, file_name) \<Rightarrow>
           bind (os_path_getsize file_path) (\<lambda>file_size.
             if file_size > MAX_TELEGRAM_FILE_SIZE
             then bind (reply_text env too_large None) (\<lambda>_. os_remove file_path)
             else bind (open_rb file_path) (\<lambda>document.
                  bind (reply_document env document file_name) (\<lambda>_.
                    os_remove file_path))))"

definition handle_message :: "env \<Rightarrow> update \<Rightarrow> unit io" where
  "handle_message env upd =
     bind (force_subscribe env upd) (\<lambda>joined.
       if \<not> joined then returns ()
       else
         case terabox_link_of (message_text upd) of
           None \<Rightarrow> reply_text env format_hint None
         | Some terabox_link \<Rightarrow>
             bind (reply_text env (downloading terabox_link) None) (\<lambda>_.
               try_except (transfer env terabox_link)
                 (\<lambda>e. reply_text env (error_during e) None)))"

section \<open>Auxiliary definitions\<close>

text \<open>
  The world once a fetch has asked for the page, created its temporary file and asked
  for the file.
\<close>

definition started :: "pystr \<Rightarrow> pystr \<Rightarrow> pystr \<Rightarrow> world \<Rightarrow> world" where
  "started link p url w =
     w\<lparr>files := (files w)(p \<mapsto> []),
       trace := trace w @ [SessionGet link False, FileCreated p, SessionGet url True]\<rparr>"

text \<open>What happened between two worlds of one invocation, and the kinds of events.\<close>

definition events_after :: "world \<Rightarrow> world \<Rightarrow> event list" where
  "events_after w w' = drop (length (trace w)) (trace w')"


fun is_request :: "event \<Rightarrow> bool" where
  "is_request (SessionGet _ _) = True"
| "is_request _ = False"

fun is_document :: "event \<Rightarrow> bool" where
  "is_document (ReplyDocument _ _ _) = True"
| "is_document _ = False"

subsection \<open>Concrete inputs\<close>

definition empty_world :: world where
  "empty_world = \<lparr>files = Map.empty, trace = []\<rparr>"

definition example_page :: pystr where
  "example_page =
     str ''<html><title> report.pdf - Terabox</title><script>var d = {'' @
     download_url_token (escape_separators (str ''https://d.terabox.com/file/abc'')) @
     str ''};</script></html>''"

definition plain_page :: pystr where
  "plain_page = str ''<html><title>Login - Terabox</title></html>''"

definition page_response :: "pystr \<Rightarrow> response" where
  "page_response html = \<lparr>status_code = 200, resp_text = html, chunks = [], stream_error = None\<rparr>"

definition file_response :: "nat \<Rightarrow> bytes list \<Rightarrow> response" where
  "file_response code cs = \<lparr>status_code = code, resp_text = [], chunks = cs, stream_error = None\<rparr>"

text \<open>
  No channel is configured, every reply is sent, the page is \<open>example_page\<close> and the file
  arrives in three chunks, the second of them empty.
\<close>

definition example_env :: env where
  "example_env =
     \<lparr>CHANNEL_USERNAME = None,
      chat_member_status = (\<lambda>chat_id uid. Returns (str ''left'')),
      reply_text_result = (\<lambda>t k. Returns ()),
      reply_document_result = (\<lambda>document filename. Returns ()),
      http_response = (\<lambda>url stream.
         if stream then Returns (file_response 200 [''%PDF'', [], ''-1.7''])
         else Returns (page_response example_page)),
      temp_name = Returns (str ''/tmp/tmpk3x9'')\<rparr>"

definition example_update :: update where
  "example_update =
     \<lparr>effective_user_id = 42,
      message_text = str '' check this https://terabox.com/s/AbC123_-xyz please ''\<rparr>"


text \<open>The same as \<open>example_env\<close> with a file of \<open>n\<close> bytes, in one chunk.\<close>

definition sized_env :: "nat \<Rightarrow> env" where
  "sized_env n =
     example_env\<lparr>http_response := \<lambda>url stream.
       if stream then Returns (file_response 200 [replicate n (CHR ''x'')])
       else Returns (page_response example_page)\<rparr>"

text \<open>The same as \<open>example_env\<close>, but the request for the file times out.\<close>

definition timeout_env :: env where
  "timeout_env =
     example_env\<lparr>http_response := \<lambda>url stream.
       if stream then Raises (str ''timed out'')
       else Returns (page_response example_page)\<rparr>"

text \<open>The same as \<open>example_env\<close>, but the platform refuses the document.\<close>

definition refusing_env :: env where
  "refusing_env =
     example_env\<lparr>reply_document_result := \<lambda>document filename. Raises (str ''Timed out'')\<rparr>"


text \<open>
  A file of 2147483649 bytes, and a platform that takes every text reply but the
  size-limit message.
\<close>

definition oversize_env :: env where
  "oversize_env =
     (sized_env 2147483649)\<lparr>reply_text_result := \<lambda>t k.
        if t = too_large then Raises (str ''Timed out'') else Returns ()\<rparr>"

section \<open>Properties of the share-link pattern\<close>

subsection \<open>Matching at a position\<close>

lemma lit_Some: "lit l s = Some r \<longleftrightarrow> s = l @ r"
  by (auto simp: lit_def prefix_def)

lemma lit_append: "lit l (l @ r) = Some r"
  by (simp add: lit_def)

lemma match_host_Some:
  "match_host acc s = Some m \<longleftrightarrow>
     (\<exists>r. s = str ''terabox.com/s/'' @ r \<and> takeWhile token_char r \<noteq> [] \<and>
          m = acc @ str ''terabox.com/s/'' @ takeWhile token_char r)"
  by (auto simp: match_host_def lit_Some lit_append Let_def split: option.splits)

lemma match_host_www: "match_host acc (str ''www.'' @ r) = None"
  by (simp add: match_host_def lit_def str_def)

lemma match_scheme_end_Some:
  "match_scheme_end acc s = Some m \<longleftrightarrow>
     (\<exists>r. s = str ''://www.'' @ r \<and> match_host (acc @ str ''://www.'') r = Some m) \<or>
     (\<exists>r. s = str ''://'' @ r \<and> match_host (acc @ str ''://'') r = Some m)"
proof -
  have w: "str ''://www.'' = str ''://'' @ str ''www.''"
    by (simp add: str_def)
  show ?thesis
    unfolding match_scheme_end_def orelse_def w
    by (auto simp: lit_Some lit_append match_host_www split: option.splits)
qed

lemma match_scheme_end_s: "match_scheme_end acc (str ''s'' @ r) = None"
  by (simp add: match_scheme_end_def lit_def str_def)

lemma TERABOX_URL_REGEX_Some:
  "TERABOX_URL_REGEX s = Some m \<longleftrightarrow>
     (\<exists>r. s = str ''https'' @ r \<and> match_scheme_end (str ''https'') r = Some m) \<or>
     (\<exists>r. s = str ''http'' @ r \<and> match_scheme_end (str ''http'') r = Some m)"
proof -
  have w: "str ''https'' = str ''http'' @ str ''s''"
    by (simp add: str_def)
  show ?thesis
    unfolding TERABOX_URL_REGEX_def orelse_def w
    by (auto simp: lit_Some lit_append match_scheme_end_s split: option.splits)
qed

lemma share_link_iff:
  "share_link m \<longleftrightarrow>
     (\<exists>h \<in> set link_heads. \<exists>tok. m = h @ tok \<and> tok \<noteq> [] \<and> list_all token_char tok)"
  unfolding share_link_def by (force simp: prefix_def)

lemma ex_nest:
  "(\<exists>r. s = g r \<and> (\<exists>r'. r = f r' \<and> P r')) \<longleftrightarrow> (\<exists>r'. s = g (f r') \<and> P r')"
  by auto

lemma TERABOX_URL_REGEX_heads:
  "TERABOX_URL_REGEX s = Some m \<longleftrightarrow>
     (\<exists>h \<in> set link_heads. \<exists>r. s = h @ r \<and> takeWhile token_char r \<noteq> [] \<and>
        m = h @ takeWhile token_char r)"
proof -
  have w: "str ''://www.'' = str ''://'' @ str ''www.''"
    by (simp add: str_def)
  show ?thesis
    unfolding TERABOX_URL_REGEX_Some match_scheme_end_Some match_host_Some link_heads_def w
    apply (simp add: ex_disj_distrib conj_disj_distribL conj_disj_distribR ex_nest)
    apply (rule iffI)
     apply (elim disjE; simp)
    apply (elim disjE; simp)
    done
qed

lemma takeWhile_all: "list_all P xs \<Longrightarrow> takeWhile P (xs @ ys) = xs @ takeWhile P ys"
  by (induction xs) auto

lemma TERABOX_URL_REGEX_share_link:
  assumes "TERABOX_URL_REGEX s = Some m"
  shows "prefix m s \<and> share_link m"
proof -
  from assms obtain h r where h: "h \<in> set link_heads" and s: "s = h @ r"
    and ne: "takeWhile token_char r \<noteq> []" and m: "m = h @ takeWhile token_char r"
    unfolding TERABOX_URL_REGEX_heads by blast
  have "prefix (takeWhile token_char r) r"
    using takeWhile_dropWhile_id [of token_char r]
      prefixI [of r "takeWhile token_char r" "dropWhile token_char r"]
    by simp
  then have "prefix m s" by (simp add: s m)
  moreover have "list_all token_char (takeWhile token_char r)"
    by (auto simp: list_all_iff dest: set_takeWhileD)
  then have "share_link m"
    unfolding share_link_iff
    by (intro bexI [OF _ h] exI [of _ "takeWhile token_char r"]) (simp add: m ne)
  ultimately show ?thesis by simp
qed

lemma TERABOX_URL_REGEX_extends:
  assumes "prefix m' s" and "share_link m'"
  shows "\<exists>e. TERABOX_URL_REGEX s = Some (m' @ e)"
proof -
  from assms(2) obtain h tok where h: "h \<in> set link_heads" and m': "m' = h @ tok"
    and ne: "tok \<noteq> []" and tc: "list_all token_char tok"
    unfolding share_link_iff by blast
  from assms(1) obtain post where s: "s = h @ tok @ post"
    by (auto simp: prefix_def m')
  have tw: "takeWhile token_char (tok @ post) = tok @ takeWhile token_char post"
    using tc by (rule takeWhile_all)
  have "TERABOX_URL_REGEX s = Some (h @ takeWhile token_char (tok @ post))"
    unfolding TERABOX_URL_REGEX_heads
    by (rule bexI [OF _ h], rule exI [of _ "tok @ post"]) (simp add: s tw ne)
  then show ?thesis by (simp add: tw m')
qed

subsection \<open>Searching\<close>

lemma re_search_Some:
  "re_search f s = Some g \<longleftrightarrow>
     (\<exists>k \<le> length s. f (drop k s) = Some g \<and> (\<forall>j < k. f (drop j s) = None))"
proof (induction s)
  case Nil
  show ?case by simp
next
  case (Cons c cs)
  show ?case
  proof (cases "f (c # cs)")
    case (Some a)
    have "(\<exists>k \<le> length (c # cs). f (drop k (c # cs)) = Some g \<and> (\<forall>j < k. f (drop j (c # cs)) = None))
          \<longleftrightarrow> a = g" (is "?L \<longleftrightarrow> _")
    proof
      assume ?L
      then obtain k where k: "f (drop k (c # cs)) = Some g" "\<forall>j < k. f (drop j (c # cs)) = None"
        by blast
      have "k = 0"
      proof (rule ccontr)
        assume "k \<noteq> 0"
        then have "f (drop 0 (c # cs)) = None" using k(2) by blast
        then show False using Some by simp
      qed
      then show "a = g" using k(1) Some by simp
    next
      assume "a = g"
      then have "f (drop 0 (c # cs)) = Some g \<and> (\<forall>j < 0. f (drop j (c # cs)) = None)"
        using Some by simp
      then show ?L by blast
    qed
    then show ?thesis using Some by simp
  next
    case None
    have "(\<exists>k \<le> length (c # cs). f (drop k (c # cs)) = Some g \<and> (\<forall>j < k. f (drop j (c # cs)) = None))
          \<longleftrightarrow> (\<exists>k \<le> length cs. f (drop k cs) = Some g \<and> (\<forall>j < k. f (drop j cs) = None))"
      (is "?L \<longleftrightarrow> ?R")
    proof
      assume ?L
      then obtain k where k: "k \<le> length (c # cs)" "f (drop k (c # cs)) = Some g"
        "\<forall>j < k. f (drop j (c # cs)) = None" by blast
      then have "k \<noteq> 0" using None by (cases k) auto
      then obtain k' where k': "k = Suc k'" by (cases k) auto
      have "\<forall>j < k'. f (drop j cs) = None"
      proof (intro allI impI)
        fix j assume "j < k'"
        then have "f (drop (Suc j) (c # cs)) = None" using k(3) k' by blast
        then show "f (drop j cs) = None" by simp
      qed
      then show ?R using k k' by auto
    next
      assume ?R
      then obtain k where k: "k \<le> length cs" "f (drop k cs) = Some g"
        "\<forall>j < k. f (drop j cs) = None" by blast
      have "\<forall>j < Suc k. f (drop j (c # cs)) = None"
      proof (intro allI impI)
        fix j assume j: "j < Suc k"
        show "f (drop j (c # cs)) = None"
        proof (cases j)
          case 0 then show ?thesis using None by simp
        next
          case (Suc j') then show ?thesis using k(3) j by simp
        qed
      qed
      moreover have "Suc k \<le> length (c # cs)" "f (drop (Suc k) (c # cs)) = Some g"
        using k by auto
      ultimately show ?L by blast
    qed
    then show ?thesis using None Cons.IH by simp
  qed
qed

lemma re_search_None:
  "re_search f s = None \<longleftrightarrow> (\<forall>k \<le> length s. f (drop k s) = None)"
proof (induction s)
  case Nil
  show ?case by simp
next
  case (Cons c cs)
  have "(\<forall>k \<le> length (c # cs). f (drop k (c # cs)) = None)
        \<longleftrightarrow> f (c # cs) = None \<and> (\<forall>k \<le> length cs. f (drop k cs) = None)" (is "?L \<longleftrightarrow> ?R")
  proof
    assume L: ?L
    have "f (drop 0 (c # cs)) = None" using L by blast
    moreover have "\<forall>k \<le> length cs. f (drop k cs) = None"
    proof (intro allI impI)
      fix k assume "k \<le> length cs"
      then have "f (drop (Suc k) (c # cs)) = None" using L by auto
      then show "f (drop k cs) = None" by simp
    qed
    ultimately show ?R by simp
  next
    assume R: ?R
    show ?L
    proof (intro allI impI)
      fix k assume k: "k \<le> length (c # cs)"
      show "f (drop k (c # cs)) = None"
        using R k by (cases k) auto
    qed
  qed
  then show ?case using Cons.IH by (auto split: option.splits)
qed

subsection \<open>Stripping does not change the search\<close>

lemma TERABOX_URL_REGEX_starts_h:
  assumes "TERABOX_URL_REGEX (c # cs) = Some m"
  shows "c = 104"
  using assms unfolding TERABOX_URL_REGEX_Some by (auto simp: str_def)

lemma TERABOX_URL_REGEX_Nil: "TERABOX_URL_REGEX [] = None"
  by (simp add: TERABOX_URL_REGEX_def lit_def str_def)

lemma TERABOX_URL_REGEX_space:
  assumes "isspace c"
  shows "TERABOX_URL_REGEX (c # cs) = None"
proof (cases "TERABOX_URL_REGEX (c # cs)")
  case None
  then show ?thesis .
next
  case (Some m)
  then have "c = 104" by (rule TERABOX_URL_REGEX_starts_h)
  with assms show ?thesis by (simp add: isspace_def)
qed

lemma re_search_lstrip:
  "re_search TERABOX_URL_REGEX (dropWhile isspace s) = re_search TERABOX_URL_REGEX s"
  by (induction s) (simp_all add: TERABOX_URL_REGEX_space)

lemma re_search_spaces:
  "\<forall>c \<in> set w. isspace c \<Longrightarrow> re_search TERABOX_URL_REGEX w = None"
  by (induction w) (simp_all add: TERABOX_URL_REGEX_space TERABOX_URL_REGEX_Nil)

lemma prefix_append_disjoint:
  "set l \<inter> set w = {} \<Longrightarrow> prefix l (t @ w) \<longleftrightarrow> prefix l t"
proof (induction t arbitrary: l)
  case Nil
  then show ?case by (cases l; cases w) auto
next
  case (Cons a t)
  then show ?case by (cases l) auto
qed

lemma lit_append_disjoint:
  assumes "set l \<inter> set w = {}"
  shows "lit l (t @ w) = map_option (\<lambda>r. r @ w) (lit l t)"
proof (cases "prefix l t")
  case True
  then have "length l \<le> length t" by (rule prefix_length_le)
  then show ?thesis
    using True assms by (simp add: lit_def prefix_append_disjoint)
next
  case False
  then show ?thesis using assms by (simp add: lit_def prefix_append_disjoint)
qed

lemma takeWhile_append_none:
  "\<forall>c \<in> set w. \<not> P c \<Longrightarrow> takeWhile P (r @ w) = takeWhile P r"
  by (induction r) (auto simp: takeWhile_eq_Nil_iff)

lemma space_not_token: "isspace c \<Longrightarrow> \<not> token_char c"
  by (auto simp: isspace_def token_char_def)

lemma space_not_literal:
  assumes "\<forall>c \<in> set w. isspace c"
  shows "set (str ''terabox.com/s/'') \<inter> set w = {}"
    and "set (str ''www.'') \<inter> set w = {}"
    and "set (str ''://'') \<inter> set w = {}"
    and "set (str ''s'') \<inter> set w = {}"
    and "set (str ''http'') \<inter> set w = {}"
  using assms by (auto simp: str_def isspace_def)

lemma match_host_append_spaces:
  assumes "\<forall>c \<in> set w. isspace c"
  shows "match_host acc (t @ w) = match_host acc t"
proof -
  have "\<forall>c \<in> set w. \<not> token_char c"
    using assms space_not_token by blast
  then show ?thesis
    unfolding match_host_def
    by (simp add: lit_append_disjoint [OF space_not_literal(1) [OF assms]]
        takeWhile_append_none split: option.splits)
qed

lemma match_scheme_end_append_spaces:
  assumes "\<forall>c \<in> set w. isspace c"
  shows "match_scheme_end acc (t @ w) = match_scheme_end acc t"
  unfolding match_scheme_end_def
  by (simp add: lit_append_disjoint [OF space_not_literal(2) [OF assms]]
      lit_append_disjoint [OF space_not_literal(3) [OF assms]]
      match_host_append_spaces [OF assms] split: option.splits)

lemma TERABOX_URL_REGEX_append_spaces:
  assumes "\<forall>c \<in> set w. isspace c"
  shows "TERABOX_URL_REGEX (t @ w) = TERABOX_URL_REGEX t"
  unfolding TERABOX_URL_REGEX_def
  by (simp add: lit_append_disjoint [OF space_not_literal(4) [OF assms]]
      lit_append_disjoint [OF space_not_literal(5) [OF assms]]
      match_scheme_end_append_spaces [OF assms] split: option.splits)

lemma re_search_append_spaces:
  assumes "\<forall>c \<in> set w. isspace c"
  shows "re_search TERABOX_URL_REGEX (t @ w) = re_search TERABOX_URL_REGEX t"
proof (induction t)
  case Nil
  show ?case by (simp add: re_search_spaces [OF assms] TERABOX_URL_REGEX_Nil)
next
  case (Cons a t)
  have "TERABOX_URL_REGEX (a # t @ w) = TERABOX_URL_REGEX (a # t)"
    using TERABOX_URL_REGEX_append_spaces [OF assms, of "a # t"] by simp
  then show ?case using Cons.IH by (simp split: option.splits)
qed

lemma rstrip_decompose:
  "\<exists>w. s = rev (dropWhile P (rev s)) @ w \<and> (\<forall>c \<in> set w. P c)"
proof -
  have "rev s = takeWhile P (rev s) @ dropWhile P (rev s)" by simp
  then have "s = rev (dropWhile P (rev s)) @ rev (takeWhile P (rev s))"
    by (metis rev_append rev_rev_ident)
  moreover have "\<forall>c \<in> set (rev (takeWhile P (rev s))). P c"
    by (auto dest: set_takeWhileD)
  ultimately show ?thesis by blast
qed

lemma re_search_strip:
  "re_search TERABOX_URL_REGEX (strip s) = re_search TERABOX_URL_REGEX s"
proof -
  obtain w where w: "dropWhile isspace s = strip s @ w" "\<forall>c \<in> set w. isspace c"
    unfolding strip_def using rstrip_decompose [of "dropWhile isspace s" isspace] by blast
  have "re_search TERABOX_URL_REGEX (strip s) = re_search TERABOX_URL_REGEX (strip s @ w)"
    using re_search_append_spaces [OF w(2)] by simp
  also have "\<dots> = re_search TERABOX_URL_REGEX (dropWhile isspace s)"
    using w(1) by simp
  also have "\<dots> = re_search TERABOX_URL_REGEX s"
    by (rule re_search_lstrip)
  finally show ?thesis .
qed

subsection \<open>The first share link\<close>

lemma occurs_at_drop: "occurs_at s k m \<Longrightarrow> prefix m (drop k s)"
  by (simp add: occurs_at_def)

lemma search_Some_first:
  assumes "re_search TERABOX_URL_REGEX s = Some m"
  shows "first_share_link s m"
proof -
  from assms obtain k where k: "k \<le> length s" "TERABOX_URL_REGEX (drop k s) = Some m"
    and before: "\<forall>j < k. TERABOX_URL_REGEX (drop j s) = None"
    unfolding re_search_Some by blast
  from k(2) have pm: "prefix m (drop k s)" and sm: "share_link m"
    using TERABOX_URL_REGEX_share_link by blast+
  have "k < k' \<or> (k = k' \<and> length m' \<le> length m)"
    if occ: "occurs_at s k' m'" and sl: "share_link m'" for k' m'
  proof -
    from occ have "prefix m' (drop k' s)" by (rule occurs_at_drop)
    then obtain e where e: "TERABOX_URL_REGEX (drop k' s) = Some (m' @ e)"
      using TERABOX_URL_REGEX_extends sl by blast
    then have "\<not> k' < k" using before by auto
    moreover have "length m' \<le> length m" if "k' = k"
      using e k(2) that by auto
    ultimately show ?thesis by force
  qed
  then show ?thesis
    unfolding first_share_link_def using k(1) pm sm
    by (intro exI [of _ k]) (auto simp: occurs_at_def)
qed

lemma first_search_Some:
  assumes "first_share_link s m"
  shows "re_search TERABOX_URL_REGEX s = Some m"
proof -
  from assms obtain k where occ: "occurs_at s k m" and sm: "share_link m"
    and least: "\<And>k' m'. occurs_at s k' m' \<Longrightarrow> share_link m' \<Longrightarrow>
                  k < k' \<or> (k = k' \<and> length m' \<le> length m)"
    unfolding first_share_link_def by blast
  from occ have kl: "k \<le> length s" and pm: "prefix m (drop k s)"
    by (simp_all add: occurs_at_def)
  obtain e where e: "TERABOX_URL_REGEX (drop k s) = Some (m @ e)"
    using TERABOX_URL_REGEX_extends [OF pm sm] by blast
  then have "prefix (m @ e) (drop k s)" "share_link (m @ e)"
    using TERABOX_URL_REGEX_share_link by blast+
  then have "length (m @ e) \<le> length m"
    using least [of k "m @ e"] kl by (auto simp: occurs_at_def)
  then have here: "TERABOX_URL_REGEX (drop k s) = Some m"
    using e by simp
  have "TERABOX_URL_REGEX (drop j s) = None" if "j < k" for j
  proof (cases "TERABOX_URL_REGEX (drop j s)")
    case None
    then show ?thesis .
  next
    case (Some m'')
    then have "prefix m'' (drop j s)" "share_link m''"
      using TERABOX_URL_REGEX_share_link by blast+
    then have "k < j \<or> (k = j \<and> length m'' \<le> length m)"
      using least [of j m''] that kl by (auto simp: occurs_at_def)
    with that show ?thesis by simp
  qed
  then show ?thesis
    unfolding re_search_Some using kl here by blast
qed

lemma search_None_iff:
  "re_search TERABOX_URL_REGEX s = None \<longleftrightarrow> \<not> (\<exists>k m. occurs_at s k m \<and> share_link m)"
proof
  assume n: "re_search TERABOX_URL_REGEX s = None"
  show "\<not> (\<exists>k m. occurs_at s k m \<and> share_link m)"
  proof
    assume "\<exists>k m. occurs_at s k m \<and> share_link m"
    then obtain k m where "k \<le> length s" "prefix m (drop k s)" "share_link m"
      by (auto simp: occurs_at_def)
    then show False
      using TERABOX_URL_REGEX_extends [of m "drop k s"] n
      unfolding re_search_None by auto
  qed
next
  assume n: "\<not> (\<exists>k m. occurs_at s k m \<and> share_link m)"
  have "TERABOX_URL_REGEX (drop k s) = None" if "k \<le> length s" for k
  proof (cases "TERABOX_URL_REGEX (drop k s)")
    case None
    then show ?thesis .
  next
    case (Some m)
    then have "occurs_at s k m \<and> share_link m"
      using TERABOX_URL_REGEX_share_link that by (auto simp: occurs_at_def)
    with n show ?thesis by blast
  qed
  then show "re_search TERABOX_URL_REGEX s = None"
    unfolding re_search_None by blast
qed

text \<open>
  Claim C3. For every text of a message, the link the handler extracts is the first
  substring that is a share link (scheme \<open>http\<close> or \<open>https\<close>, optional \<open>www.\<close>, host
  \<open>terabox.com\<close>, \<open>/s/\<close>, non-empty token of letters, digits, underscore and hyphen):
  the leftmost one, and the longest at that start. Further links and the surrounding text
  play no part, and there is no link exactly when no substring is a share link. The text
  \<open>check this https://terabox.com/s/AbC123_-xyz please\<close> yields
  \<open>https://terabox.com/s/AbC123_-xyz\<close>.
\<close>

theorem link_extractor_first_match:
  "(terabox_link_of text = Some m \<longleftrightarrow> first_share_link text m) \<and>
   (terabox_link_of text = None \<longleftrightarrow> \<not> (\<exists>k m'. occurs_at text k m' \<and> share_link m')) \<and>
   terabox_link_of (str ''check this https://terabox.com/s/AbC123_-xyz please'')
     = Some (str ''https://terabox.com/s/AbC123_-xyz'')"
proof (intro conjI)
  show "terabox_link_of text = Some m \<longleftrightarrow> first_share_link text m"
    unfolding terabox_link_of_def re_search_strip
    using search_Some_first first_search_Some by blast
  show "terabox_link_of text = None \<longleftrightarrow> \<not> (\<exists>k m'. occurs_at text k m' \<and> share_link m')"
    unfolding terabox_link_of_def re_search_strip by (rule search_None_iff)
  show "terabox_link_of (str ''check this https://terabox.com/s/AbC123_-xyz please'')
     = Some (str ''https://terabox.com/s/AbC123_-xyz'')"
    by code_simp
qed

theorem link_extractor_first_match_witness:
  "first_share_link (str ''see https://terabox.com/s/a1 and http://www.terabox.com/s/b2'')
     (str ''https://terabox.com/s/a1'')"
proof -
  have "terabox_link_of (str ''see https://terabox.com/s/a1 and http://www.terabox.com/s/b2'')
          = Some (str ''https://terabox.com/s/a1'')"
    by code_simp
  then show ?thesis
    using link_extractor_first_match
      [of "str ''see https://terabox.com/s/a1 and http://www.terabox.com/s/b2''"
          "str ''https://terabox.com/s/a1''"]
    by simp
qed
section \<open>Properties of the fetch routine\<close>

subsection \<open>The token pattern\<close>

lemma dropWhile_drop_takeWhile: "dropWhile P xs = drop (length (takeWhile P xs)) xs"
  by (induction xs) auto

lemma download_url_regex_Some:
  "download_url_regex s = Some g \<longleftrightarrow>
     (\<exists>run rest. s = download_url_key @ escaped_https @ run @ dquote # rest \<and>
        run \<noteq> [] \<and> dquote \<notin> set run \<and> g = escaped_https @ run)"
  (is "?L \<longleftrightarrow> ?R")
proof
  assume ?L
  then obtain r r' rest where r: "s = download_url_key @ r" and r': "r = escaped_https @ r'"
    and ne: "takeWhile (\<lambda>c. c \<noteq> dquote) r' \<noteq> []"
    and q: "drop (length (takeWhile (\<lambda>c. c \<noteq> dquote) r')) r' = dquote # rest"
    and g: "g = escaped_https @ takeWhile (\<lambda>c. c \<noteq> dquote) r'"
    by (auto simp: download_url_regex_def lit_Some Let_def split: option.splits if_splits)
  let ?run = "takeWhile (\<lambda>c. c \<noteq> dquote) r'"
  have "r' = ?run @ dropWhile (\<lambda>c. c \<noteq> dquote) r'" by simp
  then have "r' = ?run @ dquote # rest"
    using q by (simp add: dropWhile_drop_takeWhile)
  moreover have "dquote \<notin> set ?run"
    by (auto dest: set_takeWhileD)
  ultimately show ?R using r r' ne g by blast
next
  assume ?R
  then obtain run rest where s: "s = download_url_key @ escaped_https @ run @ dquote # rest"
    and ne: "run \<noteq> []" and nq: "dquote \<notin> set run" and g: "g = escaped_https @ run"
    by blast
  have tw: "takeWhile (\<lambda>c. c \<noteq> dquote) (run @ dquote # rest) = run"
    using nq by (induction run) auto
  show ?L
    unfolding download_url_regex_def s
    by (simp add: lit_append tw ne g lit_def Let_def)
qed

lemma well_formed_value_iff:
  "well_formed_value v \<longleftrightarrow> (\<exists>run. v = escaped_https @ run \<and> run \<noteq> [] \<and> dquote \<notin> set run)"
  unfolding well_formed_value_def by (auto simp: prefix_def)

lemma download_url_regex_token:
  "download_url_regex s = Some v \<longleftrightarrow> well_formed_value v \<and> prefix (download_url_token v) s"
  unfolding download_url_regex_Some well_formed_value_iff download_url_token_def
  by (auto simp: prefix_def)

lemma token_at_iff:
  "token_at html k v \<longleftrightarrow> k \<le> length html \<and> download_url_regex (drop k html) = Some v"
  unfolding token_at_def occurs_at_def download_url_regex_token by auto


lemma contains_token_iff:
  "contains_token html \<longleftrightarrow> re_search download_url_regex html \<noteq> None"
proof -
  have "re_search download_url_regex html = None \<longleftrightarrow> \<not> contains_token html"
    unfolding re_search_None contains_token_def token_at_iff by auto
  then show ?thesis by auto
qed

lemma first_token_search:
  assumes tok: "token_at html k v" and first: "\<forall>k' v'. token_at html k' v' \<longrightarrow> k \<le> k'"
  shows "re_search download_url_regex html = Some v"
proof -
  from tok have k: "k \<le> length html" "download_url_regex (drop k html) = Some v"
    by (simp_all add: token_at_iff)
  have "download_url_regex (drop j html) = None" if "j < k" for j
  proof (cases "download_url_regex (drop j html)")
    case None
    then show ?thesis .
  next
    case (Some v')
    then have "token_at html j v'" using that k(1) by (simp add: token_at_iff)
    then have "k \<le> j" using first by blast
    with that show ?thesis by simp
  qed
  then show ?thesis unfolding re_search_Some using k by blast
qed

lemma search_first_token:
  assumes "re_search download_url_regex html = Some v"
  shows "\<exists>k. token_at html k v \<and> (\<forall>k' v'. token_at html k' v' \<longrightarrow> k \<le> k')"
proof -
  from assms obtain k where k: "k \<le> length html" "download_url_regex (drop k html) = Some v"
    and before: "\<forall>j < k. download_url_regex (drop j html) = None"
    unfolding re_search_Some by blast
  have "k \<le> k'" if "token_at html k' v'" for k' v'
  proof (rule ccontr)
    assume "\<not> k \<le> k'"
    then have "download_url_regex (drop k' html) = None" using before by simp
    then show False using that by (simp add: token_at_iff)
  qed
  then show ?thesis using k by (auto simp: token_at_iff)
qed

lemma replace_escape_separators:
  "backslash \<notin> set u \<Longrightarrow> replace (backslash # str ''/'') (str ''/'') (escape_separators u) = u"
  by (induction u) (auto simp: str_def)

subsection \<open>The routine case by case\<close>

lemma trace_write_chunks: "trace (write_chunks p cs w) = trace w"
  by (induction cs arbitrary: w) (simp_all add: file_write_def)

lemma files_write_chunks_other: "q \<noteq> p \<Longrightarrow> files (write_chunks p cs w) q = files w q"
  by (induction cs arbitrary: w) (simp_all add: file_write_def)

lemma files_write_chunks_same:
  "files w p = Some b \<Longrightarrow> files (write_chunks p cs w) p = Some (b @ concat cs)"
  by (induction cs arbitrary: w b) (simp_all add: file_write_def)

lemma download_page_raises:
  assumes "http_response env link False = Raises e"
  shows "download_terabox_file env link w = (Returns None, log (SessionGet link False) w)"
  using assms
  by (simp add: download_terabox_file_def download_body_def try_except_def bind_def
      session_get_def returns_def)

lemma download_no_url:
  assumes "http_response env link False = Returns resp"
    and "status_code resp \<noteq> 200 \<or> download_url_of (resp_text resp) = None"
  shows "download_terabox_file env link w = (Returns None, log (SessionGet link False) w)"
  using assms
  by (auto simp: download_terabox_file_def download_body_def try_except_def bind_def
      session_get_def returns_def Let_def)

lemma download_temp_fails:
  assumes "http_response env link False = Returns resp"
    and "status_code resp = 200"
    and "download_url_of (resp_text resp) = Some url"
    and "temp_name env = Raises e \<or> (\<exists>p. temp_name env = Returns p \<and> files w p \<noteq> None)"
  shows "download_terabox_file env link w = (Returns None, log (SessionGet link False) w)"
  using assms
  by (auto simp: download_terabox_file_def download_body_def try_except_def bind_def
      session_get_def returns_def Let_def NamedTemporaryFile_def log_def)

lemma download_started:
  assumes "http_response env link False = Returns resp"
    and "status_code resp = 200"
    and "download_url_of (resp_text resp) = Some url"
    and "temp_name env = Returns p"
    and "files w p = None"
  shows "download_terabox_file env link w =
     (case http_response env url True of
        Raises e \<Rightarrow> (Returns None, started link p url w)
      | Returns d \<Rightarrow>
          if status_code d \<noteq> 200
          then (Returns None,
                (started link p url w)
                  \<lparr>files := files w, trace := trace (started link p url w) @ [FileRemoved p]\<rparr>)
          else (case stream_error d of
                  None \<Rightarrow> (Returns (Some (p, file_name_of (resp_text resp))),
                           write_chunks p (chunks d) (started link p url w))
                | Some e \<Rightarrow> (Returns None, write_chunks p (chunks d) (started link p url w))))"
proof -
  have f: "(files w)(p := None) = files w"
    using assms(5) by auto
  show ?thesis
    using assms
    by (auto simp: download_terabox_file_def download_body_def try_except_def bind_def
      session_get_def returns_def Let_def NamedTemporaryFile_def log_def started_def
      os_remove_def iter_content_loop_def f split: outcome.splits option.splits)
qed

lemma trace_started_mem:
  "SessionGet url True \<in> set (trace (started link p url w))"
  by (simp add: started_def)

text \<open>
  Claim C8. For every link, whatever the web and the temporary directory do, the fetch
  routine returns to its caller and raises nothing; whenever the body of its \<open>try\<close>
  raises, at the page request, while parsing or during the download, the result is the pair
  \<open>(None, None)\<close>.
\<close>

theorem fetch_never_raises:
  "(\<exists>r. fst (download_terabox_file env link w) = Returns r) \<and>
   (\<forall>e. fst (download_body env link w) = Raises e \<longrightarrow>
      fst (download_terabox_file env link w) = Returns None)"
  by (cases "download_body env link w"; cases "fst (download_body env link w)")
    (auto simp: download_terabox_file_def try_except_def returns_def)

theorem fetch_never_raises_witness:
  "fst (download_body (example_env\<lparr>http_response := \<lambda>url stream. Raises (str ''timed out'')\<rparr>)
          (str ''https://terabox.com/s/a1'') empty_world) = Raises (str ''timed out'') \<and>
   fst (download_terabox_file (example_env\<lparr>http_response := \<lambda>url stream. Raises (str ''timed out'')\<rparr>)
          (str ''https://terabox.com/s/a1'') empty_world) = Returns None"
proof -
  have b: "fst (download_body (example_env\<lparr>http_response := \<lambda>url stream. Raises (str ''timed out'')\<rparr>)
          (str ''https://terabox.com/s/a1'') empty_world) = Raises (str ''timed out'')"
    by (simp add: download_body_def bind_def session_get_def)
  then show ?thesis
    using fetch_never_raises
      [of "example_env\<lparr>http_response := \<lambda>url stream. Raises (str ''timed out'')\<rparr>"
          "str ''https://terabox.com/s/a1''" empty_world]
    by blast
qed

text \<open>
  Claim C6. When the body of the page has no well-formed download-URL token, the fetch
  routine returns no artifact, the files are what they were (no temporary file is created),
  and the request for the page is the only thing it did: no download request is issued.
\<close>

theorem no_token_no_artifact:
  assumes "http_response env link False = Returns resp"
    and "\<not> contains_token (resp_text resp)"
  shows "fst (download_terabox_file env link w) = Returns None \<and>
         files (snd (download_terabox_file env link w)) = files w \<and>
         trace (snd (download_terabox_file env link w)) = trace w @ [SessionGet link False]"
proof -
  have "download_url_of (resp_text resp) = None"
    using assms(2) by (simp add: contains_token_iff download_url_of_def)
  then have "download_terabox_file env link w = (Returns None, log (SessionGet link False) w)"
    using assms(1) by (simp add: download_no_url)
  then show ?thesis by (simp add: log_def)
qed

theorem no_token_no_artifact_witness:
  "\<not> contains_token plain_page \<and>
   fst (download_terabox_file (example_env\<lparr>http_response := \<lambda>url stream. Returns (page_response plain_page)\<rparr>)
          (str ''https://terabox.com/s/a1'') empty_world) = Returns None \<and>
   files (snd (download_terabox_file (example_env\<lparr>http_response := \<lambda>url stream. Returns (page_response plain_page)\<rparr>)
          (str ''https://terabox.com/s/a1'') empty_world)) = Map.empty \<and>
   trace (snd (download_terabox_file (example_env\<lparr>http_response := \<lambda>url stream. Returns (page_response plain_page)\<rparr>)
          (str ''https://terabox.com/s/a1'') empty_world)) = [SessionGet (str ''https://terabox.com/s/a1'') False]"
proof -
  have "re_search download_url_regex plain_page = None" by code_simp
  then have n: "\<not> contains_token (resp_text (page_response plain_page))"
    by (simp add: contains_token_iff page_response_def)
  have g: "http_response (example_env\<lparr>http_response := \<lambda>url stream. Returns (page_response plain_page)\<rparr>)
             (str ''https://terabox.com/s/a1'') False = Returns (page_response plain_page)"
    by simp
  show ?thesis
    using no_token_no_artifact [OF g n, of empty_world] n
    by (simp add: empty_world_def page_response_def)
qed

text \<open>
  Claim C7. When the request for the resolved direct-download URL is answered with a
  status other than 200, the fetch routine returns no artifact, and the temporary file it
  had just created is removed before it returns: the file does not exist afterwards and
  the files are what they were before the fetch.
\<close>

theorem non_200_download_removes_temp_file:
  assumes "http_response env link False = Returns resp"
    and "status_code resp = 200"
    and "download_url_of (resp_text resp) = Some url"
    and "temp_name env = Returns p"
    and "files w p = None"
    and "http_response env url True = Returns d"
    and "status_code d \<noteq> 200"
  shows "fst (download_terabox_file env link w) = Returns None \<and>
         files (snd (download_terabox_file env link w)) p = None \<and>
         files (snd (download_terabox_file env link w)) = files w \<and>
         trace (snd (download_terabox_file env link w)) =
           trace w @ [SessionGet link False, FileCreated p, SessionGet url True, FileRemoved p]"
  using assms by (simp add: download_started [OF assms(1-5)] started_def)

theorem non_200_download_removes_temp_file_witness:
  "fst (download_terabox_file
          (example_env\<lparr>http_response := \<lambda>url stream.
             if stream then Returns (file_response 403 [''Forbidden''])
             else Returns (page_response example_page)\<rparr>)
          (str ''https://terabox.com/s/a1'') empty_world) = Returns None \<and>
   files (snd (download_terabox_file
          (example_env\<lparr>http_response := \<lambda>url stream.
             if stream then Returns (file_response 403 [''Forbidden''])
             else Returns (page_response example_page)\<rparr>)
          (str ''https://terabox.com/s/a1'') empty_world)) (str ''/tmp/tmpk3x9'') = None \<and>
   trace (snd (download_terabox_file
          (example_env\<lparr>http_response := \<lambda>url stream.
             if stream then Returns (file_response 403 [''Forbidden''])
             else Returns (page_response example_page)\<rparr>)
          (str ''https://terabox.com/s/a1'') empty_world)) =
     [SessionGet (str ''https://terabox.com/s/a1'') False, FileCreated (str ''/tmp/tmpk3x9''),
      SessionGet (str ''https://d.terabox.com/file/abc'') True, FileRemoved (str ''/tmp/tmpk3x9'')]"
proof -
  let ?env = "example_env\<lparr>http_response := \<lambda>url stream.
             if stream then Returns (file_response 403 [''Forbidden''])
             else Returns (page_response example_page)\<rparr>"
  have u: "download_url_of (resp_text (page_response example_page))
             = Some (str ''https://d.terabox.com/file/abc'')"
    by code_simp
  have 1: "http_response ?env (str ''https://terabox.com/s/a1'') False
             = Returns (page_response example_page)"
    by simp
  have 2: "status_code (page_response example_page) = 200"
    by (simp add: page_response_def)
  have 4: "temp_name ?env = Returns (str ''/tmp/tmpk3x9'')"
    by (simp add: example_env_def)
  have 5: "files empty_world (str ''/tmp/tmpk3x9'') = None"
    by (simp add: empty_world_def)
  have 6: "http_response ?env (str ''https://d.terabox.com/file/abc'') True
             = Returns (file_response 403 [''Forbidden''])"
    by simp
  have 7: "status_code (file_response 403 [''Forbidden'']) \<noteq> 200"
    by (simp add: file_response_def)
  show ?thesis
    using non_200_download_removes_temp_file [OF 1 2 u 4 5 6 7]
    by (simp add: empty_world_def)
qed

text \<open>
  Claim C2. When the body of the page has a well-formed download-URL token, the fetch
  routine extracts the value of the first such token of the page and replaces every
  \<open>\/\<close> in it by \<open>/\<close>. So when the token at hand, with value \<open>v\<close>, is the first one (as it is
  when the page has just one), the routine extracts exactly \<open>v\<close>, unescaped; when \<open>v\<close> is a
  URL with its separators escaped, the result is that URL; and the second request of the
  routine goes to the result.
\<close>

theorem download_url_extracted_and_unescaped:
  assumes "token_at html k v"
  shows "(\<exists>k0 v0. token_at html k0 v0 \<and> k0 \<le> k \<and> (\<forall>k' v'. token_at html k' v' \<longrightarrow> k0 \<le> k') \<and>
            download_url_of html = Some (replace (backslash # str ''/'') (str ''/'') v0)) \<and>
         ((\<forall>k' v'. token_at html k' v' \<longrightarrow> k \<le> k') \<longrightarrow>
            download_url_of html = Some (replace (backslash # str ''/'') (str ''/'') v) \<and>
            (\<forall>u. backslash \<notin> set u \<and> v = escape_separators u \<longrightarrow> download_url_of html = Some u) \<and>
            (\<forall>env link w resp p.
               http_response env link False = Returns resp \<and> status_code resp = 200 \<and>
               resp_text resp = html \<and> temp_name env = Returns p \<and> files w p = None \<longrightarrow>
               SessionGet (replace (backslash # str ''/'') (str ''/'') v) True
                 \<in> set (trace (snd (download_terabox_file env link w)))))"
proof (intro conjI impI allI)
  have "contains_token html"
    using assms by (auto simp: contains_token_def)
  then obtain v0 where s0: "re_search download_url_regex html = Some v0"
    by (auto simp: contains_token_iff)
  then obtain k0 where k0: "token_at html k0 v0"
    and first0: "\<forall>k' v'. token_at html k' v' \<longrightarrow> k0 \<le> k'"
    using search_first_token by blast
  have "k0 \<le> k" using first0 assms by blast
  moreover have "download_url_of html = Some (replace (backslash # str ''/'') (str ''/'') v0)"
    using s0 by (simp add: download_url_of_def)
  ultimately show "\<exists>k0 v0. token_at html k0 v0 \<and> k0 \<le> k \<and>
      (\<forall>k' v'. token_at html k' v' \<longrightarrow> k0 \<le> k') \<and>
      download_url_of html = Some (replace (backslash # str ''/'') (str ''/'') v0)"
    using k0 first0 by blast
next
  assume first: "\<forall>k' v'. token_at html k' v' \<longrightarrow> k \<le> k'"
  have "re_search download_url_regex html = Some v"
    using assms first by (rule first_token_search)
  then show "download_url_of html = Some (replace (backslash # str ''/'') (str ''/'') v)"
    by (simp add: download_url_of_def)
next
  fix u
  assume first: "\<forall>k' v'. token_at html k' v' \<longrightarrow> k \<le> k'"
    and u: "backslash \<notin> set u \<and> v = escape_separators u"
  have "re_search download_url_regex html = Some v"
    using assms first by (rule first_token_search)
  then show "download_url_of html = Some u"
    using u by (simp add: download_url_of_def replace_escape_separators)
next
  fix env :: env and link and w :: world and resp :: response and p
  assume first: "\<forall>k' v'. token_at html k' v' \<longrightarrow> k \<le> k'"
    and h: "http_response env link False = Returns resp \<and> status_code resp = 200 \<and>
        resp_text resp = html \<and> temp_name env = Returns p \<and> files w p = None"
  have "re_search download_url_regex html = Some v"
    using assms first by (rule first_token_search)
  then have "download_url_of (resp_text resp)
               = Some (replace (backslash # str ''/'') (str ''/'') v)"
    using h by (simp add: download_url_of_def)
  then show "SessionGet (replace (backslash # str ''/'') (str ''/'') v) True
               \<in> set (trace (snd (download_terabox_file env link w)))"
    using h
    by (simp add: download_started [where resp = resp and p = p] trace_write_chunks
        started_def split: outcome.splits option.splits)
qed

theorem download_url_extracted_and_unescaped_witness:
  "\<exists>k. token_at example_page k (escape_separators (str ''https://d.terabox.com/file/abc'')) \<and>
       download_url_of example_page = Some (str ''https://d.terabox.com/file/abc'') \<and>
       SessionGet (str ''https://d.terabox.com/file/abc'') True
         \<in> set (trace (snd (download_terabox_file example_env (str ''https://terabox.com/s/a1'')
                                 empty_world)))"
proof -
  let ?v = "escape_separators (str ''https://d.terabox.com/file/abc'')"
  have "re_search download_url_regex example_page = Some ?v"
    by code_simp
  then obtain k where k: "token_at example_page k ?v"
    and first: "\<forall>k' v'. token_at example_page k' v' \<longrightarrow> k \<le> k'"
    using search_first_token by blast
  note t = download_url_extracted_and_unescaped [OF k, THEN conjunct2, THEN mp, OF first]
  have nb: "backslash \<notin> set (str ''https://d.terabox.com/file/abc'')"
    by code_simp
  have u: "download_url_of example_page = Some (str ''https://d.terabox.com/file/abc'')"
    using t nb by blast
  have e: "http_response example_env (str ''https://terabox.com/s/a1'') False
             = Returns (page_response example_page) \<and>
           status_code (page_response example_page) = 200 \<and>
           resp_text (page_response example_page) = example_page \<and>
           temp_name example_env = Returns (str ''/tmp/tmpk3x9'') \<and>
           files empty_world (str ''/tmp/tmpk3x9'') = None"
    by (simp add: example_env_def page_response_def empty_world_def)
  have "SessionGet (replace (backslash # str ''/'') (str ''/'') ?v) True
         \<in> set (trace (snd (download_terabox_file example_env (str ''https://terabox.com/s/a1'')
                                 empty_world)))"
    using t e by blast
  moreover have "replace (backslash # str ''/'') (str ''/'') ?v = str ''https://d.terabox.com/file/abc''"
    using t u by simp
  ultimately show ?thesis using k u by auto
qed
section \<open>Properties of the membership gate\<close>

lemma force_subscribe_open:
  assumes "\<not> group_configured env"
  shows "force_subscribe env upd w = (Returns True, w)"
  using assms
  by (auto simp: force_subscribe_def group_configured_def returns_def split: option.splits)

lemma force_subscribe_member:
  assumes "CHANNEL_USERNAME env = Some ch" and "ch \<noteq> []" and "is_member env upd"
  shows "force_subscribe env upd w =
           (Returns True, log (GetChatMember (str ''@'' @ ch) (effective_user_id upd)) w)"
  using assms
  by (auto simp: force_subscribe_def is_member_def returns_def try_except_def bind_def
      get_chat_member_def split: outcome.splits)

lemma force_subscribe_not_member:
  assumes "CHANNEL_USERNAME env = Some ch" and "ch \<noteq> []"
    and "chat_member_status env (str ''@'' @ ch) (effective_user_id upd) = Returns st"
    and "st \<notin> set member_statuses"
  shows "force_subscribe env upd w =
           (case reply_text_result env (must_join ch) (Some [[join_button ch]]) of
              Returns _ \<Rightarrow>
                (Returns False,
                 w\<lparr>trace := trace w @ [GetChatMember (str ''@'' @ ch) (effective_user_id upd),
                      ReplyText (must_join ch) (Some [[join_button ch]]) True]\<rparr>)
            | Raises e \<Rightarrow>
                (case reply_text_result env (please_join ch) (Some [[join_button ch]]) of
                   Returns _ \<Rightarrow>
                     (Returns False,
                      w\<lparr>trace := trace w @ [GetChatMember (str ''@'' @ ch) (effective_user_id upd),
                           ReplyText (must_join ch) (Some [[join_button ch]]) False,
                           ReplyText (please_join ch) (Some [[join_button ch]]) True]\<rparr>)
                 | Raises e' \<Rightarrow>
                     (Raises e',
                      w\<lparr>trace := trace w @ [GetChatMember (str ''@'' @ ch) (effective_user_id upd),
                           ReplyText (must_join ch) (Some [[join_button ch]]) False,
                           ReplyText (please_join ch) (Some [[join_button ch]]) False]\<rparr>)))"
  using assms
  by (auto simp: force_subscribe_def returns_def try_except_def bind_def
      get_chat_member_def reply_text_def log_def split: outcome.splits)

lemma force_subscribe_query_fails:
  assumes "CHANNEL_USERNAME env = Some ch" and "ch \<noteq> []"
    and "chat_member_status env (str ''@'' @ ch) (effective_user_id upd) = Raises e"
  shows "force_subscribe env upd w =
           (case reply_text_result env (please_join ch) (Some [[join_button ch]]) of
              Returns _ \<Rightarrow>
                (Returns False,
                 w\<lparr>trace := trace w @ [GetChatMember (str ''@'' @ ch) (effective_user_id upd),
                      ReplyText (please_join ch) (Some [[join_button ch]]) True]\<rparr>)
            | Raises e' \<Rightarrow>
                (Raises e',
                 w\<lparr>trace := trace w @ [GetChatMember (str ''@'' @ ch) (effective_user_id upd),
                      ReplyText (please_join ch) (Some [[join_button ch]]) False]\<rparr>))"
  using assms
  by (auto simp: force_subscribe_def returns_def try_except_def bind_def
      get_chat_member_def reply_text_def log_def split: outcome.splits)




lemma trace_log: "trace (log e w) = trace w @ [e]"
  by (simp add: log_def)

lemma files_log: "files (log e w) = files w"
  by (simp add: log_def)

lemma trace_empty_world: "trace empty_world = []"
  by (simp add: empty_world_def)

lemma files_empty_world: "files empty_world p = None"
  by (simp add: empty_world_def)




lemma force_subscribe_world:
  "files (snd (force_subscribe env upd w)) = files w \<and>
   (\<exists>evs. trace (snd (force_subscribe env upd w)) = trace w @ evs \<and>
          filter is_request evs = [] \<and> filter is_document evs = [])"
proof (cases "group_configured env")
  case False
  then show ?thesis by (simp add: force_subscribe_open)
next
  case True
  then obtain ch where ch: "CHANNEL_USERNAME env = Some ch" "ch \<noteq> []"
    by (auto simp: group_configured_def split: option.splits)
  show ?thesis
  proof (cases "chat_member_status env (str ''@'' @ ch) (effective_user_id upd)")
    case (Raises e)
    show ?thesis
      unfolding force_subscribe_query_fails [OF ch Raises]
      by (cases "reply_text_result env (please_join ch) (Some [[join_button ch]])") simp_all
  next
    case (Returns st)
    show ?thesis
    proof (cases "st \<in> set member_statuses")
      case True
      then have m: "is_member env upd"
        using ch Returns by (simp add: is_member_def)
      show ?thesis
        unfolding force_subscribe_member [OF ch m] by (simp add: log_def)
    next
      case False
      show ?thesis
        unfolding force_subscribe_not_member [OF ch Returns False]
        by (cases "reply_text_result env (must_join ch) (Some [[join_button ch]])";
            cases "reply_text_result env (please_join ch) (Some [[join_button ch]])") simp_all
    qed
  qed
qed

section \<open>Properties of the message handler\<close>

lemma handle_message_joined:
  assumes "force_subscribe env upd w = (Returns True, w1)"
  shows "handle_message env upd w =
     (case terabox_link_of (message_text upd) of
        None \<Rightarrow> reply_text env format_hint None w1
      | Some link \<Rightarrow>
          bind (reply_text env (downloading link) None) (\<lambda>_.
            try_except (transfer env link) (\<lambda>e. reply_text env (error_during e) None)) w1)"
  using assms by (simp add: handle_message_def bind_def split: option.splits)

text \<open>
  Claim C4. When the sender passes the gate and no substring of the text of the message
  is a share link, the handler calls \<open>reply_text\<close> with the format hint and does nothing
  else after the gate: its outcome is the outcome of that call, no request is issued
  anywhere in the invocation, and the files are untouched, so the fetch routine never ran.
\<close>

theorem no_link_hint_and_no_fetch:
  assumes "fst (force_subscribe env upd w) = Returns True"
    and "\<not> (\<exists>k m. occurs_at (message_text upd) k m \<and> share_link m)"
  shows "fst (handle_message env upd w) = reply_text_result env format_hint None \<and>
         events_after (snd (force_subscribe env upd w)) (snd (handle_message env upd w)) =
           [ReplyText format_hint None (returned (reply_text_result env format_hint None))] \<and>
         filter is_request (events_after w (snd (handle_message env upd w))) = [] \<and>
         files (snd (handle_message env upd w)) = files w"
proof -
  obtain w1 where g: "force_subscribe env upd w = (Returns True, w1)"
    using assms(1) by (cases "force_subscribe env upd w") auto
  from force_subscribe_world [of env upd w] g
  obtain evs where w1: "files w1 = files w" "trace w1 = trace w @ evs" "filter is_request evs = []"
    by auto
  have "re_search TERABOX_URL_REGEX (message_text upd) = None"
    using assms(2) by (simp add: search_None_iff)
  then have n: "terabox_link_of (message_text upd) = None"
    by (simp add: terabox_link_of_def re_search_strip)
  show ?thesis
    using w1 by (simp add: handle_message_joined [OF g] n g reply_text_def log_def events_after_def)
qed
theorem no_link_hint_and_no_fetch_witness:
  "fst (force_subscribe example_env
          (example_update\<lparr>message_text := str ''hello https://example.com/s/abc''\<rparr>) empty_world)
     = Returns True \<and>
   \<not> (\<exists>k m. occurs_at (str ''hello https://example.com/s/abc'') k m \<and> share_link m) \<and>
   fst (handle_message example_env
          (example_update\<lparr>message_text := str ''hello https://example.com/s/abc''\<rparr>) empty_world)
     = Returns () \<and>
   trace (snd (handle_message example_env
          (example_update\<lparr>message_text := str ''hello https://example.com/s/abc''\<rparr>) empty_world))
     = [ReplyText format_hint None True]"
proof -
  let ?upd = "example_update\<lparr>message_text := str ''hello https://example.com/s/abc''\<rparr>"
  have o: "\<not> group_configured example_env"
    by (simp add: group_configured_def example_env_def)
  have g: "force_subscribe example_env ?upd empty_world = (Returns True, empty_world)"
    using o by (rule force_subscribe_open)
  then have g1: "fst (force_subscribe example_env ?upd empty_world) = Returns True"
    by simp
  have "re_search TERABOX_URL_REGEX (str ''hello https://example.com/s/abc'') = None"
    by code_simp
  then have n: "\<not> (\<exists>k m. occurs_at (message_text ?upd) k m \<and> share_link m)"
    by (simp add: search_None_iff)
  have r: "reply_text_result example_env format_hint None = Returns ()"
    by (simp add: example_env_def)
  show ?thesis
    using no_link_hint_and_no_fetch [OF g1 n] n
    by (simp add: g r events_after_def trace_empty_world)
qed

subsection \<open>The size ceiling\<close>

lemma transfer_artifact:
  assumes "download_terabox_file env link w = (Returns (Some (p, name)), w2)"
    and "files w2 p = Some b"
  shows "transfer env link w =
     (if length b > MAX_TELEGRAM_FILE_SIZE
      then (case reply_text_result env too_large None of
              Raises e \<Rightarrow> (Raises e, log (ReplyText too_large None False) w2)
            | Returns _ \<Rightarrow>
                (Returns (),
                 w2\<lparr>files := (files w2)(p := None),
                    trace := trace w2 @ [ReplyText too_large None True, FileRemoved p]\<rparr>))
      else (case reply_document_result env b name of
              Raises e \<Rightarrow> (Raises e, log (ReplyDocument b name False) w2)
            | Returns _ \<Rightarrow>
                (Returns (),
                 w2\<lparr>files := (files w2)(p := None),
                    trace := trace w2 @ [ReplyDocument b name True, FileRemoved p]\<rparr>)))"
  using assms
  by (auto simp: transfer_def bind_def os_path_getsize_def reply_text_def os_remove_def
      open_rb_def reply_document_def log_def split: outcome.splits)

lemma handle_message_artifact:
  assumes gate: "force_subscribe env upd w = (Returns True, w1)"
    and link: "terabox_link_of (message_text upd) = Some link"
    and ack: "reply_text_result env (downloading link) None = Returns ()"
    and fetch: "download_terabox_file env link (log (ReplyText (downloading link) None True) w1)
                  = (Returns (Some (p, name)), w2)"
    and content: "files w2 p = Some b"
  shows "handle_message env upd w =
     (case transfer env link (log (ReplyText (downloading link) None True) w1) of
        (Raises e, w3) \<Rightarrow> reply_text env (error_during e) None w3
      | (Returns x, w3) \<Rightarrow> (Returns x, w3))"
  using ack
  by (simp add: handle_message_joined [OF gate] link bind_def reply_text_def try_except_def)

text \<open>
  An artifact larger than 2 GiB: the first thing the handler does after the fetch is to
  reply with the size-limit message, and it sends no document, whatever happens. When
  the platform takes the reply, the handler removes the file and returns.
\<close>

lemma oversize_rejected:
  assumes gate: "force_subscribe env upd w = (Returns True, w1)"
    and link: "terabox_link_of (message_text upd) = Some link"
    and ack: "reply_text_result env (downloading link) None = Returns ()"
    and fetch: "download_terabox_file env link (log (ReplyText (downloading link) None True) w1)
                  = (Returns (Some (p, name)), w2)"
    and content: "files w2 p = Some b"
    and big: "length b > 2 * 1024 * 1024 * 1024"
  shows "events_after w2 (snd (handle_message env upd w)) =
           (case reply_text_result env too_large None of
              Returns _ \<Rightarrow> [ReplyText too_large None True, FileRemoved p]
            | Raises e \<Rightarrow>
                [ReplyText too_large None False,
                 ReplyText (error_during e) None
                   (returned (reply_text_result env (error_during e) None))]) \<and>
         filter is_document (events_after w2 (snd (handle_message env upd w))) = [] \<and>
         (reply_text_result env too_large None = Returns () \<longrightarrow>
            fst (handle_message env upd w) = Returns () \<and>
            files (snd (handle_message env upd w)) p = None \<and>
            files (snd (handle_message env upd w)) = (files w2)(p := None))"
  using big
  by (simp add: handle_message_artifact [OF gate link ack fetch content]
      transfer_artifact [OF fetch content] MAX_TELEGRAM_FILE_SIZE_def events_after_def
      reply_text_def trace_log split: outcome.splits)

text \<open>
  Claim C10. The ceiling is \<open>2 * 1024 * 1024 * 1024 = 2147483648\<close> and the comparison is
  strict: an artifact of exactly 2147483648 bytes is not rejected. The first thing the
  handler does after the fetch is to send it as a document; the size-limit message is not
  among what follows.
\<close>

theorem exactly_two_gib_is_sent:
  assumes gate: "force_subscribe env upd w = (Returns True, w1)"
    and link: "terabox_link_of (message_text upd) = Some link"
    and ack: "reply_text_result env (downloading link) None = Returns ()"
    and fetch: "download_terabox_file env link (log (ReplyText (downloading link) None True) w1)
                  = (Returns (Some (p, name)), w2)"
    and content: "files w2 p = Some b"
    and size: "length b = 2147483648"
  shows "MAX_TELEGRAM_FILE_SIZE = 2147483648 \<and>
         events_after w2 (snd (handle_message env upd w)) =
           (case reply_document_result env b name of
              Returns _ \<Rightarrow> [ReplyDocument b name True, FileRemoved p]
            | Raises e \<Rightarrow>
                [ReplyDocument b name False,
                 ReplyText (error_during e) None
                   (returned (reply_text_result env (error_during e) None))])"
  using size
  by (simp add: handle_message_artifact [OF gate link ack fetch content]
      transfer_artifact [OF fetch content] MAX_TELEGRAM_FILE_SIZE_def events_after_def
      reply_text_def trace_log split: outcome.splits)
text \<open>An artifact that the fetch routine returns is a file that exists.\<close>

lemma fetch_success_file:
  assumes "download_terabox_file env link w = (Returns (Some (p, name)), w2)"
  shows "\<exists>b. files w2 p = Some b"
  using assms
  by (auto simp: download_terabox_file_def download_body_def try_except_def bind_def
      session_get_def returns_def Let_def NamedTemporaryFile_def iter_content_loop_def
      os_remove_def files_log files_write_chunks_same
      split: outcome.splits option.splits if_splits prod.splits)


subsection \<open>Runs on concrete inputs\<close>

lemma example_link:
  "terabox_link_of (message_text example_update) = Some (str ''https://terabox.com/s/AbC123_-xyz'')"
  by code_simp

lemma example_page_url:
  "download_url_of (resp_text (page_response example_page))
     = Some (str ''https://d.terabox.com/file/abc'')"
  by code_simp

lemma example_page_name:
  "file_name_of (resp_text (page_response example_page)) = str ''report.pdf''"
  by code_simp

lemma example_gate:
  assumes "CHANNEL_USERNAME env = None"
  shows "force_subscribe env upd w = (Returns True, w)"
  using assms by (simp add: force_subscribe_open group_configured_def)

text \<open>The fetch of the example link when the file has \<open>n\<close> bytes.\<close>

lemma sized_fetch:
  "download_terabox_file (sized_env n) (str ''https://terabox.com/s/AbC123_-xyz'')
     (log (ReplyText (downloading (str ''https://terabox.com/s/AbC123_-xyz'')) None True) empty_world)
   = (Returns (Some (str ''/tmp/tmpk3x9'', str ''report.pdf'')),
      write_chunks (str ''/tmp/tmpk3x9'') [replicate n (CHR ''x'')]
        (started (str ''https://terabox.com/s/AbC123_-xyz'') (str ''/tmp/tmpk3x9'')
           (str ''https://d.terabox.com/file/abc'')
           (log (ReplyText (downloading (str ''https://terabox.com/s/AbC123_-xyz'')) None True)
              empty_world)))"
proof -
  have 1: "http_response (sized_env n) (str ''https://terabox.com/s/AbC123_-xyz'') False
             = Returns (page_response example_page)"
    by (simp add: sized_env_def)
  have 2: "status_code (page_response example_page) = 200"
    by (simp add: page_response_def)
  have 4: "temp_name (sized_env n) = Returns (str ''/tmp/tmpk3x9'')"
    by (simp add: sized_env_def example_env_def)
  have 5: "files (log (ReplyText (downloading (str ''https://terabox.com/s/AbC123_-xyz'')) None True)
                    empty_world) (str ''/tmp/tmpk3x9'') = None"
    by (simp add: files_log files_empty_world)
  have 6: "http_response (sized_env n) (str ''https://d.terabox.com/file/abc'') True
             = Returns (file_response 200 [replicate n (CHR ''x'')])"
    by (simp add: sized_env_def)
  show ?thesis
    by (simp add: download_started [OF 1 2 example_page_url 4 5] 6 file_response_def
        example_page_name)
qed

lemma sized_content:
  "files (write_chunks (str ''/tmp/tmpk3x9'') [replicate n (CHR ''x'')]
        (started link (str ''/tmp/tmpk3x9'') url w)) (str ''/tmp/tmpk3x9'')
   = Some (replicate n (CHR ''x''))"
proof -
  have "files (started link (str ''/tmp/tmpk3x9'') url w) (str ''/tmp/tmpk3x9'') = Some []"
    by (simp add: started_def)
  then show ?thesis
    using files_write_chunks_same
      [of "started link (str ''/tmp/tmpk3x9'') url w" "str ''/tmp/tmpk3x9''" "[]"
          "[replicate n (CHR ''x'')]"]
    by simp
qed

lemma oversize_rejected_example:
  "fst (handle_message (sized_env 2147483649) example_update empty_world) = Returns () \<and>
   files (snd (handle_message (sized_env 2147483649) example_update empty_world))
     (str ''/tmp/tmpk3x9'') = None"
proof -
  have gate: "force_subscribe (sized_env 2147483649) example_update empty_world
                = (Returns True, empty_world)"
    by (rule example_gate) (simp add: sized_env_def example_env_def)
  have ack: "reply_text_result (sized_env 2147483649)
               (downloading (str ''https://terabox.com/s/AbC123_-xyz'')) None = Returns ()"
    by (simp add: sized_env_def example_env_def)
  have big: "length (replicate 2147483649 (CHR ''x'')) > 2 * 1024 * 1024 * 1024"
    by simp
  have said: "reply_text_result (sized_env 2147483649) too_large None = Returns ()"
    by (simp add: sized_env_def example_env_def)
  show ?thesis
    using oversize_rejected [OF gate example_link ack sized_fetch sized_content big] said
    by simp
qed

theorem exactly_two_gib_is_sent_witness:
  "ReplyDocument (replicate 2147483648 (CHR ''x'')) (str ''report.pdf'') True
     \<in> set (trace (snd (handle_message (sized_env 2147483648) example_update empty_world)))"
proof -
  have gate: "force_subscribe (sized_env 2147483648) example_update empty_world
                = (Returns True, empty_world)"
    by (rule example_gate) (simp add: sized_env_def example_env_def)
  have ack: "reply_text_result (sized_env 2147483648)
               (downloading (str ''https://terabox.com/s/AbC123_-xyz'')) None = Returns ()"
    by (simp add: sized_env_def example_env_def)
  have size: "length (replicate 2147483648 (CHR ''x'')) = 2147483648"
    by simp
  have doc: "reply_document_result (sized_env 2147483648) (replicate 2147483648 (CHR ''x''))
               (str ''report.pdf'') = Returns ()"
    by (simp add: sized_env_def example_env_def)
  have "ReplyDocument (replicate 2147483648 (CHR ''x'')) (str ''report.pdf'') True
          \<in> set (events_after
                 (write_chunks (str ''/tmp/tmpk3x9'') [replicate 2147483648 (CHR ''x'')]
                    (started (str ''https://terabox.com/s/AbC123_-xyz'') (str ''/tmp/tmpk3x9'')
                       (str ''https://d.terabox.com/file/abc'')
                       (log (ReplyText (downloading (str ''https://terabox.com/s/AbC123_-xyz''))
                               None True) empty_world)))
                 (snd (handle_message (sized_env 2147483648) example_update empty_world)))"
    using exactly_two_gib_is_sent
      [OF gate example_link ack sized_fetch sized_content size, THEN conjunct2]
    by (simp add: doc)
  then show ?thesis
    unfolding events_after_def by (rule in_set_dropD)
qed
subsection \<open>Temporary files that stay\<close>

lemma trace_started:
  "trace (started link p url w) =
     trace w @ [SessionGet link False, FileCreated p, SessionGet url True]"
  by (simp add: started_def)

lemma files_started: "files (started link p url w) = (files w)(p \<mapsto> [])"
  by (simp add: started_def)

lemma timeout_fetch:
  "download_terabox_file timeout_env (str ''https://terabox.com/s/AbC123_-xyz'') w0
   = (if files w0 (str ''/tmp/tmpk3x9'') = None
      then (Returns None,
            started (str ''https://terabox.com/s/AbC123_-xyz'') (str ''/tmp/tmpk3x9'')
              (str ''https://d.terabox.com/file/abc'') w0)
      else (Returns None, log (SessionGet (str ''https://terabox.com/s/AbC123_-xyz'') False) w0))"
proof -
  have 1: "http_response timeout_env (str ''https://terabox.com/s/AbC123_-xyz'') False
             = Returns (page_response example_page)"
    by (simp add: timeout_env_def)
  have 2: "status_code (page_response example_page) = 200"
    by (simp add: page_response_def)
  have 4: "temp_name timeout_env = Returns (str ''/tmp/tmpk3x9'')"
    by (simp add: timeout_env_def example_env_def)
  have 6: "http_response timeout_env (str ''https://d.terabox.com/file/abc'') True
             = Raises (str ''timed out'')"
    by (simp add: timeout_env_def)
  show ?thesis
  proof (cases "files w0 (str ''/tmp/tmpk3x9'') = None")
    case True
    then show ?thesis
      by (simp add: download_started [OF 1 2 example_page_url 4 True] 6)
  next
    case False
    have "download_terabox_file timeout_env (str ''https://terabox.com/s/AbC123_-xyz'') w0
            = (Returns None, log (SessionGet (str ''https://terabox.com/s/AbC123_-xyz'') False) w0)"
      by (rule download_temp_fails [OF 1 2 example_page_url]) (use 4 False in simp)
    then show ?thesis using False by auto
  qed
qed

text \<open>
  Claim C1 says that every temporary file the fetch routine creates is removed exactly
  once before the handler invocation ends, on every path, an exception during the
  download or the send included. The code does not do that when the download raises:
  here the page has the token, the temporary file is created, and the request for the
  file times out. The fetch routine swallows the exception and returns no artifact; the
  handler reports the failure and ends. The file was created, was never removed, and is
  still there.
\<close>

theorem temp_file_stays_when_download_raises:
  "fst (handle_message timeout_env example_update empty_world) = Returns () \<and>
   trace (snd (handle_message timeout_env example_update empty_world)) =
     [ReplyText (downloading (str ''https://terabox.com/s/AbC123_-xyz'')) None True,
      SessionGet (str ''https://terabox.com/s/AbC123_-xyz'') False,
      FileCreated (str ''/tmp/tmpk3x9''),
      SessionGet (str ''https://d.terabox.com/file/abc'') True,
      ReplyText download_failed None True] \<and>
   files (snd (handle_message timeout_env example_update empty_world)) (str ''/tmp/tmpk3x9'')
     = Some []"
proof -
  have gate: "force_subscribe timeout_env example_update empty_world = (Returns True, empty_world)"
    by (rule example_gate) (simp add: timeout_env_def example_env_def)
  have r: "reply_text_result timeout_env t k = Returns ()" for t k
    by (simp add: timeout_env_def example_env_def)
  show ?thesis
    by (simp add: handle_message_joined [OF gate] example_link bind_def try_except_def
        reply_text_def r transfer_def timeout_fetch files_log files_empty_world trace_log
        trace_empty_world trace_started files_started)
qed

text \<open>
  The same when the transfer succeeds and the platform refuses the document: the
  exception of \<open>reply_document\<close> goes to the handler's \<open>except\<close>, which reports it, and
  \<open>os.remove\<close> is never reached.
\<close>

lemma refusing_fetch:
  "download_terabox_file refusing_env (str ''https://terabox.com/s/AbC123_-xyz'')
     (log (ReplyText (downloading (str ''https://terabox.com/s/AbC123_-xyz'')) None True) empty_world)
   = (Returns (Some (str ''/tmp/tmpk3x9'', str ''report.pdf'')),
      write_chunks (str ''/tmp/tmpk3x9'') [''%PDF'', [], ''-1.7'']
        (started (str ''https://terabox.com/s/AbC123_-xyz'') (str ''/tmp/tmpk3x9'')
           (str ''https://d.terabox.com/file/abc'')
           (log (ReplyText (downloading (str ''https://terabox.com/s/AbC123_-xyz'')) None True)
              empty_world)))"
proof -
  have 1: "http_response refusing_env (str ''https://terabox.com/s/AbC123_-xyz'') False
             = Returns (page_response example_page)"
    by (simp add: refusing_env_def example_env_def)
  have 2: "status_code (page_response example_page) = 200"
    by (simp add: page_response_def)
  have 4: "temp_name refusing_env = Returns (str ''/tmp/tmpk3x9'')"
    by (simp add: refusing_env_def example_env_def)
  have 5: "files (log (ReplyText (downloading (str ''https://terabox.com/s/AbC123_-xyz'')) None True)
                    empty_world) (str ''/tmp/tmpk3x9'') = None"
    by (simp add: files_log files_empty_world)
  have 6: "http_response refusing_env (str ''https://d.terabox.com/file/abc'') True
             = Returns (file_response 200 [''%PDF'', [], ''-1.7''])"
    by (simp add: refusing_env_def example_env_def)
  show ?thesis
    by (simp add: download_started [OF 1 2 example_page_url 4 5] 6 file_response_def
        example_page_name)
qed

lemma temp_file_stays_when_send_raises:
  "fst (handle_message refusing_env example_update empty_world) = Returns () \<and>
   trace (snd (handle_message refusing_env example_update empty_world)) =
     [ReplyText (downloading (str ''https://terabox.com/s/AbC123_-xyz'')) None True,
      SessionGet (str ''https://terabox.com/s/AbC123_-xyz'') False,
      FileCreated (str ''/tmp/tmpk3x9''),
      SessionGet (str ''https://d.terabox.com/file/abc'') True,
      ReplyDocument ''%PDF-1.7'' (str ''report.pdf'') False,
      ReplyText (error_during (str ''Timed out'')) None True] \<and>
   files (snd (handle_message refusing_env example_update empty_world)) (str ''/tmp/tmpk3x9'')
     = Some ''%PDF-1.7''"
proof -
  have gate: "force_subscribe refusing_env example_update empty_world = (Returns True, empty_world)"
    by (rule example_gate) (simp add: refusing_env_def example_env_def)
  have r: "reply_text_result refusing_env t k = Returns ()" for t k
    by (simp add: refusing_env_def example_env_def)
  have d: "reply_document_result refusing_env b n = Raises (str ''Timed out'')" for b n
    by (simp add: refusing_env_def)
  have c: "files (write_chunks (str ''/tmp/tmpk3x9'') [''%PDF'', [], ''-1.7'']
        (started (str ''https://terabox.com/s/AbC123_-xyz'') (str ''/tmp/tmpk3x9'')
           (str ''https://d.terabox.com/file/abc'')
           (log (ReplyText (downloading (str ''https://terabox.com/s/AbC123_-xyz'')) None True)
              empty_world))) (str ''/tmp/tmpk3x9'') = Some ''%PDF-1.7''"
    by (simp add: files_write_chunks_same [where b = "[]"] files_started del: write_chunks.simps)
  show ?thesis
    by (simp add: handle_message_artifact [OF gate example_link r refusing_fetch c]
        transfer_artifact [OF refusing_fetch c] d reply_text_def r trace_log files_log c
        trace_write_chunks trace_started trace_empty_world MAX_TELEGRAM_FILE_SIZE_def
        del: write_chunks.simps)
qed
subsection \<open>The oversize path\<close>

lemma downloading_not_too_large: "downloading l \<noteq> too_large"
  by (simp add: downloading_def too_large_def magnifier_def cross_mark_def)

lemma error_during_not_too_large: "error_during e \<noteq> too_large"
  by (simp add: error_during_def too_large_def cross_mark_def str_def)

lemma oversize_fetch:
  "download_terabox_file oversize_env (str ''https://terabox.com/s/AbC123_-xyz'')
     (log (ReplyText (downloading (str ''https://terabox.com/s/AbC123_-xyz'')) None True) empty_world)
   = (Returns (Some (str ''/tmp/tmpk3x9'', str ''report.pdf'')),
      write_chunks (str ''/tmp/tmpk3x9'') [replicate 2147483649 (CHR ''x'')]
        (started (str ''https://terabox.com/s/AbC123_-xyz'') (str ''/tmp/tmpk3x9'')
           (str ''https://d.terabox.com/file/abc'')
           (log (ReplyText (downloading (str ''https://terabox.com/s/AbC123_-xyz'')) None True)
              empty_world)))"
proof -
  have 1: "http_response oversize_env (str ''https://terabox.com/s/AbC123_-xyz'') False
             = Returns (page_response example_page)"
    by (simp add: oversize_env_def sized_env_def)
  have 2: "status_code (page_response example_page) = 200"
    by (simp add: page_response_def)
  have 4: "temp_name oversize_env = Returns (str ''/tmp/tmpk3x9'')"
    by (simp add: oversize_env_def sized_env_def example_env_def)
  have 5: "files (log (ReplyText (downloading (str ''https://terabox.com/s/AbC123_-xyz'')) None True)
                    empty_world) (str ''/tmp/tmpk3x9'') = None"
    by (simp add: files_log files_empty_world)
  have 6: "http_response oversize_env (str ''https://d.terabox.com/file/abc'') True
             = Returns (file_response 200 [replicate 2147483649 (CHR ''x'')])"
    by (simp add: oversize_env_def sized_env_def)
  show ?thesis
    by (simp add: download_started [OF 1 2 example_page_url 4 5] 6 file_response_def
        example_page_name)
qed

text \<open>
  Claim C9 says that for every fetched artifact larger than 2 GiB the handler replies with
  the size-limit message, deletes the local file and stops without sending a document. The
  code does not delete the file when the size-limit reply raises: here the file has
  2147483649 bytes and the platform refuses that reply. The exception goes to the
  handler's \<open>except\<close>, which reports it; \<open>os.remove\<close> is never reached, no document is
  sent, and the file is still there with all its bytes.
\<close>

theorem oversize_file_stays_when_reply_raises:
  "MAX_TELEGRAM_FILE_SIZE < length (replicate 2147483649 (CHR ''x'')) \<and>
   fst (handle_message oversize_env example_update empty_world) = Returns () \<and>
   trace (snd (handle_message oversize_env example_update empty_world)) =
     [ReplyText (downloading (str ''https://terabox.com/s/AbC123_-xyz'')) None True,
      SessionGet (str ''https://terabox.com/s/AbC123_-xyz'') False,
      FileCreated (str ''/tmp/tmpk3x9''),
      SessionGet (str ''https://d.terabox.com/file/abc'') True,
      ReplyText too_large None False,
      ReplyText (error_during (str ''Timed out'')) None True] \<and>
   files (snd (handle_message oversize_env example_update empty_world)) (str ''/tmp/tmpk3x9'')
     = Some (replicate 2147483649 (CHR ''x''))"
proof -
  have gate: "force_subscribe oversize_env example_update empty_world = (Returns True, empty_world)"
    by (rule example_gate) (simp add: oversize_env_def sized_env_def example_env_def)
  have ack: "reply_text_result oversize_env
               (downloading (str ''https://terabox.com/s/AbC123_-xyz'')) None = Returns ()"
    by (simp add: oversize_env_def downloading_not_too_large)
  have said: "reply_text_result oversize_env too_large None = Raises (str ''Timed out'')"
    by (simp add: oversize_env_def)
  have told: "reply_text_result oversize_env (error_during (str ''Timed out'')) None = Returns ()"
    by (simp add: oversize_env_def error_during_not_too_large)
  show ?thesis
    by (simp add: handle_message_artifact [OF gate example_link ack oversize_fetch sized_content]
        transfer_artifact [OF oversize_fetch sized_content] said told reply_text_def trace_log
        files_log sized_content trace_write_chunks trace_started trace_empty_world
        MAX_TELEGRAM_FILE_SIZE_def del: write_chunks.simps)
qed

end
